theory Spec2Isabelle
  imports Main
begin

section \<open>JavaScript values used by the handlers\<close>

text \<open>
  An optional property of a JavaScript object is an \<open>option\<close>: \<open>None\<close> is
  \<open>undefined\<close>. A string is falsy when it is undefined or empty.
\<close>

definition truthy_str :: "string option \<Rightarrow> bool" where
  "truthy_str s = (case s of None \<Rightarrow> False | Some v \<Rightarrow> v \<noteq> [])"

text \<open>\<open>a || b\<close> on an optional string \<open>a\<close> and a string \<open>b\<close>.\<close>

definition or_else :: "string option \<Rightarrow> string \<Rightarrow> string" where
  "or_else a b = (case a of None \<Rightarrow> b | Some v \<Rightarrow> if v = [] then b else v)"

text \<open>
  A thrown error object: the handlers read \<open>error.status\<close> and \<open>error.message\<close> only.
\<close>

record js_error =
  status :: "int option"
  message :: "string option"

definition quote :: "string \<Rightarrow> string" where
  "quote s = [CHR 0x27] @ s @ [CHR 0x27]"

text \<open>
  A \<open>TypeError\<close> carries no \<open>status\<close>. Reading property \<open>p\<close> of \<open>undefined\<close> or
  \<open>null\<close>, and destructuring such a value (the messages are those of Node's engine).
\<close>

definition typeError :: "string \<Rightarrow> js_error" where
  "typeError msg = \<lparr>status = None, message = Some msg\<rparr>"

definition typeError_reading :: "string \<Rightarrow> string \<Rightarrow> js_error" where
  "typeError_reading v p =
     typeError (''Cannot read properties of '' @ v @ '' (reading '' @ quote p @ '')'')"

definition typeError_destructure :: "string \<Rightarrow> string \<Rightarrow> string \<Rightarrow> js_error" where
  "typeError_destructure p src v =
     typeError (''Cannot destructure property '' @ quote p @ '' of '' @ quote src @ '' as it is ''
                @ v @ ''.'')"

subsection \<open>Numbers in template literals\<close>

definition digit_char :: "nat \<Rightarrow> char" where
  "digit_char d = char_of (48 + d)"

fun show_nat :: "nat \<Rightarrow> string" where
  "show_nat n = (if n < 10 then [digit_char n] else show_nat (n div 10) @ [digit_char (n mod 10)])"

declare show_nat.simps [simp del]

text \<open>\<open>Date.now()\<close> is an integer number of milliseconds; it prints in decimal.\<close>

definition show_int :: "int \<Rightarrow> string" where
  "show_int i = (if i < 0 then CHR ''-'' # show_nat (nat (- i)) else show_nat (nat i))"

section \<open>The streamed response\<close>

text \<open>
  The chunk objects of the model client, with the fields \<open>processAIResponse\<close> reads:
  \<open>chunk.candidates[0].content.parts[0].inlineData\<close> with its \<open>data\<close> and
  \<open>mimeType\<close>, and \<open>chunk.text\<close>. Every field is optional.
\<close>

record blob =
  data :: "string option"
  mimeType :: "string option"

record part =
  inlineData :: "blob option"

record gcontent =
  parts :: "part list option"

record candidate =
  content :: "gcontent option"

record chunk =
  candidates :: "candidate list option"
  text_field :: "string option"

text \<open>
  The asynchronous iterable: the chunks it yields, then either normal completion or an
  error thrown by the transport.
\<close>

type_synonym stream = "chunk list \<times> js_error option"

section \<open>processAIResponse, stateless-function deployment\<close>

datatype result =
  Image (image_data: "string option") (image_mimeType: "string option") (filename: string)
  | Text (text_content: string)

text \<open>
  \<open>chunk.candidates?.[0]?.content?.parts?.[0]?.inlineData\<close>: every step yields
  \<open>undefined\<close> instead of throwing.
\<close>

definition firstInlineData :: "chunk \<Rightarrow> blob option" where
  "firstInlineData c =
     (case candidates c of None \<Rightarrow> None
      | Some cands \<Rightarrow> (case cands of [] \<Rightarrow> None
        | cand # _ \<Rightarrow> (case content cand of None \<Rightarrow> None
          | Some ct \<Rightarrow> (case parts ct of None \<Rightarrow> None
            | Some ps \<Rightarrow> (case ps of [] \<Rightarrow> None | p # _ \<Rightarrow> inlineData p)))))"

text \<open>
  The guard at the head of the loop body,
  \<open>!chunk.candidates || !chunk.candidates[0].content || !chunk.candidates[0].content.parts\<close>.
  An array is truthy even when empty, and \<open>candidates[0]\<close> is then \<open>undefined\<close>, whose
  property \<open>content\<close> cannot be read: that is the \<open>Inl\<close> branch.
\<close>

definition skipGuard :: "chunk \<Rightarrow> js_error + bool" where
  "skipGuard c =
     (case candidates c of None \<Rightarrow> Inr True
      | Some cands \<Rightarrow> (case cands of [] \<Rightarrow> Inl (typeError_reading ''undefined'' ''content'')
        | cand # _ \<Rightarrow> (case content cand of None \<Rightarrow> Inr True
          | Some ct \<Rightarrow> (case parts ct of None \<Rightarrow> Inr True | Some ps \<Rightarrow> Inr False))))"

text \<open>
  \<open>mime.getExtension\<close> belongs to the \<open>mime\<close> package and is a parameter here: it
  returns \<open>null\<close> (\<open>None\<close>) for a media type it does not know. A template literal
  prints \<open>null\<close> as the four letters.
\<close>

definition fileExtension :: "(string \<Rightarrow> string option) \<Rightarrow> blob \<Rightarrow> string" where
  "fileExtension getExtension b =
     (case getExtension (or_else (mimeType b) ''image/png'') of
        None \<Rightarrow> ''null'' | Some e \<Rightarrow> e)"

text \<open>
  \<open>now k\<close> is what the \<open>k\<close>-th call of \<open>Date.now()\<close> inside one invocation returns
  (counting from 0). The only call stands in the statement that also increments
  \<open>fileIndex\<close>, so the number of earlier calls is \<open>fileIndex\<close>.
\<close>

definition fileName :: "(nat \<Rightarrow> int) \<Rightarrow> string \<Rightarrow> nat \<Rightarrow> string" where
  "fileName now baseFileName fileIndex =
     baseFileName @ ''_'' @ show_int (now fileIndex) @ ''_'' @ show_nat fileIndex"

text \<open>
  The loop of \<open>processAIResponse\<close> over the chunks that arrive, with the running
  \<open>fileIndex\<close> and the \<open>results\<close> pushed so far.
\<close>

fun processLoop ::
  "(string \<Rightarrow> string option) \<Rightarrow> (nat \<Rightarrow> int) \<Rightarrow> string \<Rightarrow> chunk list \<Rightarrow> nat \<Rightarrow> result list
     \<Rightarrow> js_error + result list" where
  "processLoop getExtension now baseFileName [] fileIndex results = Inr results"
| "processLoop getExtension now baseFileName (c # cs) fileIndex results =
     (case skipGuard c of
        Inl e \<Rightarrow> Inl e
      | Inr True \<Rightarrow> processLoop getExtension now baseFileName cs fileIndex results
      | Inr False \<Rightarrow>
          (case firstInlineData c of
             Some b \<Rightarrow>
               processLoop getExtension now baseFileName cs (Suc fileIndex)
                 (results @ [Image (data b) (mimeType b)
                    (fileName now baseFileName fileIndex @ ''.'' @ fileExtension getExtension b)])
           | None \<Rightarrow>
               (case text_field c of
                  None \<Rightarrow> processLoop getExtension now baseFileName cs fileIndex results
                | Some t \<Rightarrow>
                    if t = [] then processLoop getExtension now baseFileName cs fileIndex results
                    else processLoop getExtension now baseFileName cs fileIndex
                           (results @ [Text t]))))"

definition processAIResponse ::
  "(string \<Rightarrow> string option) \<Rightarrow> (nat \<Rightarrow> int) \<Rightarrow> stream \<Rightarrow> string \<Rightarrow> js_error + result list" where
  "processAIResponse getExtension now response baseFileName =
     (case processLoop getExtension now baseFileName (fst response) 0 [] of
        Inl e \<Rightarrow> Inl e
      | Inr results \<Rightarrow> (case snd response of None \<Rightarrow> Inr results | Some e \<Rightarrow> Inl e))"

section \<open>processAIResponse, long-running server\<close>

datatype server_result =
  ServerImage (url: string) (server_mimeType: "string option")
  | ServerText (server_content: string)

text \<open>
  \<open>saveBinaryFile\<close> creates the output directory and writes the file; \<open>fs_write\<close>
  stands for both file-system calls and says whether they fail for this name and
  payload (the payload is the base64 text the buffer is decoded from). A failure is
  logged and thrown again.
\<close>

definition saveBinaryFile ::
  "(string \<Rightarrow> string \<Rightarrow> js_error option) \<Rightarrow> string \<Rightarrow> string \<Rightarrow> js_error + string" where
  "saveBinaryFile fs_write file payload =
     (case fs_write file payload of
        Some err \<Rightarrow> Inl err
      | None \<Rightarrow> Inr (''/generated/'' @ file))"

fun serverProcessLoop ::
  "(string \<Rightarrow> string option) \<Rightarrow> (nat \<Rightarrow> int) \<Rightarrow> (string \<Rightarrow> string \<Rightarrow> js_error option) \<Rightarrow> string
     \<Rightarrow> chunk list \<Rightarrow> nat \<Rightarrow> server_result list \<Rightarrow> js_error + server_result list" where
  "serverProcessLoop getExtension now fs_write baseFileName [] fileIndex results = Inr results"
| "serverProcessLoop getExtension now fs_write baseFileName (c # cs) fileIndex results =
     (case skipGuard c of
        Inl e \<Rightarrow> Inl e
      | Inr True \<Rightarrow> serverProcessLoop getExtension now fs_write baseFileName cs fileIndex results
      | Inr False \<Rightarrow>
          (case firstInlineData c of
             Some b \<Rightarrow>
               (case saveBinaryFile fs_write
                       (fileName now baseFileName fileIndex @ ''.'' @ fileExtension getExtension b)
                       (or_else (data b) []) of
                  Inl e \<Rightarrow> Inl e
                | Inr imagePath \<Rightarrow>
                    serverProcessLoop getExtension now fs_write baseFileName cs (Suc fileIndex)
                      (results @ [ServerImage imagePath (mimeType b)]))
           | None \<Rightarrow>
               (case text_field c of
                  None \<Rightarrow>
                    serverProcessLoop getExtension now fs_write baseFileName cs fileIndex results
                | Some t \<Rightarrow>
                    if t = []
                    then serverProcessLoop getExtension now fs_write baseFileName cs fileIndex results
                    else serverProcessLoop getExtension now fs_write baseFileName cs fileIndex
                           (results @ [ServerText t]))))"

definition serverProcessAIResponse ::
  "(string \<Rightarrow> string option) \<Rightarrow> (nat \<Rightarrow> int) \<Rightarrow> (string \<Rightarrow> string \<Rightarrow> js_error option) \<Rightarrow> stream
     \<Rightarrow> string \<Rightarrow> js_error + server_result list" where
  "serverProcessAIResponse getExtension now fs_write response baseFileName =
     (case serverProcessLoop getExtension now fs_write baseFileName (fst response) 0 [] of
        Inl e \<Rightarrow> Inl e
      | Inr results \<Rightarrow> (case snd response of None \<Rightarrow> Inr results | Some e \<Rightarrow> Inl e))"

section \<open>JSON bodies\<close>

text \<open>
  A JSON value; an object is the list of its own properties, each key once. Of a
  number the handlers only ask whether it is zero.
\<close>

datatype json =
  JNull | JBool bool | JNum int | JStr string | JArr "json list" | JObj "(string \<times> json) list"

fun json_truthy :: "json \<Rightarrow> bool" where
  "json_truthy JNull = False"
| "json_truthy (JBool b) = b"
| "json_truthy (JNum n) = (n \<noteq> 0)"
| "json_truthy (JStr s) = (s \<noteq> [])"
| "json_truthy (JArr xs) = True"
| "json_truthy (JObj kvs) = True"

fun json_get :: "json \<Rightarrow> string \<Rightarrow> json option" where
  "json_get (JObj kvs) k = map_of kvs k"
| "json_get j k = None"

text \<open>\<open>JSON.stringify\<close> leaves out a property whose value is \<open>undefined\<close>.\<close>

definition field :: "string \<Rightarrow> json option \<Rightarrow> (string \<times> json) list" where
  "field k v = (case v of None \<Rightarrow> [] | Some j \<Rightarrow> [(k, j)])"

fun result_json :: "result \<Rightarrow> json" where
  "result_json (Image d m f) =
     JObj ([(''type'', JStr ''image'')] @ field ''data'' (map_option JStr d)
           @ field ''mimeType'' (map_option JStr m) @ [(''filename'', JStr f)])"
| "result_json (Text c) = JObj [(''type'', JStr ''text''), (''content'', JStr c)]"

fun server_result_json :: "server_result \<Rightarrow> json" where
  "server_result_json (ServerImage u m) =
     JObj ([(''type'', JStr ''image''), (''url'', JStr u)] @ field ''mimeType'' (map_option JStr m))"
| "server_result_json (ServerText c) = JObj [(''type'', JStr ''text''), (''content'', JStr c)]"

section \<open>The request handlers\<close>

subsection \<open>Collaborators, requests and responses\<close>

text \<open>The content array passed to \<open>ai.models.generateContentStream\<close>.\<close>

datatype req_part = TextPart json | InlineDataPart string string

record req_content =
  role :: string
  req_parts :: "req_part list"

record gen_request =
  model :: string
  responseModalities :: "string list"
  contents :: "req_content list"

text \<open>
  What a handler takes from outside the repository: the \<open>mime\<close> table, the clock, the
  environment variable \<open>GEMINI_API_KEY\<close>, the model client, \<open>JSON.parse\<close>, the base64
  encoder of \<open>Buffer\<close> and the file system.
\<close>

record runtime =
  rt_getExtension :: "string \<Rightarrow> string option"
  rt_now :: "nat \<Rightarrow> int"
  rt_apiKey :: "string option"
  rt_generateContentStream :: "gen_request \<Rightarrow> js_error + stream"
  rt_JSON_parse :: "string option \<Rightarrow> js_error + json"
  rt_base64 :: "string \<Rightarrow> string"
  rt_fs_write :: "string \<Rightarrow> string \<Rightarrow> js_error option"

text \<open>
  A response of a stateless function: the body is the object given to
  \<open>JSON.stringify\<close>, or \<open>None\<close> for the empty body of the preflight answer.
\<close>

record response =
  statusCode :: nat
  headers :: "(string \<times> string) list"
  body :: "json option"

definition json_headers :: "(string \<times> string) list" where
  "json_headers = [(''Access-Control-Allow-Origin'', ''*''), (''Content-Type'', ''application/json'')]"

definition json_response :: "nat \<Rightarrow> json \<Rightarrow> response" where
  "json_response code obj = \<lparr>statusCode = code, headers = json_headers, body = Some obj\<rparr>"

definition preflight_response :: response where
  "preflight_response =
     \<lparr>statusCode = 200,
      headers = [(''Access-Control-Allow-Origin'', ''*''),
                 (''Access-Control-Allow-Headers'', ''Content-Type''),
                 (''Access-Control-Allow-Methods'', ''GET, POST, PUT, DELETE, OPTIONS'')],
      body = None\<rparr>"

text \<open>A response of the server: \<open>res.status(code).json(obj)\<close>, the status 200 by default.\<close>

record express_response =
  res_status :: nat
  res_json :: json

record event =
  httpMethod :: string
  ev_headers :: "(string \<times> string) list"
  ev_body :: "string option"

text \<open>
  The four \<open>catch\<close> blocks are the same chain on \<open>error.status\<close>; they differ in the
  hint of the 401 answer and in the error text of the last branch.
\<close>

definition catchError :: "string \<Rightarrow> string \<Rightarrow> js_error \<Rightarrow> nat \<times> json" where
  "catchError keyHint failure e =
     (if status e = Some 429 then
        (429, JObj [(''error'', JStr ''API rate limit exceeded''),
                    (''details'', JStr ''You have exceeded the API rate limit. Please wait a few minutes and try again.''),
                    (''suggestion'', JStr ''Consider upgrading your API plan for higher limits.'')])
      else if status e = Some 401 then
        (401, JObj [(''error'', JStr ''Invalid API key''), (''details'', JStr keyHint)])
      else if status e = Some 400 then
        (400, JObj [(''error'', JStr ''Invalid request''),
                    (''details'', JStr (or_else (message e) ''The request was malformed or invalid.''))])
      else
        (500, JObj ([(''error'', JStr failure)] @ field ''details'' (map_option JStr (message e)))))"

definition netlifyKeyHint :: string where
  "netlifyKeyHint = ''Please check your GEMINI_API_KEY in the environment variables.''"

definition serverKeyHint :: string where
  "serverKeyHint = ''Please check your GEMINI_API_KEY in the .env file.''"

definition modelId :: string where
  "modelId = ''gemini-2.5-flash-image-preview''"

definition successBody :: "json \<Rightarrow> (string \<times> json) list \<Rightarrow> json list \<Rightarrow> json" where
  "successBody prompt extra results =
     JObj ([(''success'', JBool True), (''prompt'', prompt)] @ extra @ [(''results'', JArr results)])"

subsection \<open>Text to image\<close>

text \<open>\<open>const { prompt } = v\<close>: it throws on \<open>null\<close>; a value that is no object has no such property.\<close>

fun destructure_prompt :: "string \<Rightarrow> json \<Rightarrow> js_error + json option" where
  "destructure_prompt src JNull = Inl (typeError_destructure ''prompt'' src ''null'')"
| "destructure_prompt src (JObj kvs) = Inr (map_of kvs ''prompt'')"
| "destructure_prompt src j = Inr None"

definition generateRequest :: "json \<Rightarrow> gen_request" where
  "generateRequest prompt =
     \<lparr>model = modelId, responseModalities = [''IMAGE'', ''TEXT''],
      contents = [\<lparr>role = ''user'', req_parts = [TextPart prompt]\<rparr>]\<rparr>"

text \<open>
  The \<open>try\<close> block of the stateless \<open>handler\<close> of \<open>generate-image\<close>: what it returns or
  throws, and the requests it has sent to the model client.
\<close>

definition generate_image_try :: "runtime \<Rightarrow> event \<Rightarrow> (js_error + response) \<times> gen_request list" where
  "generate_image_try rt ev =
     (case rt_JSON_parse rt (ev_body ev) of
        Inl e \<Rightarrow> (Inl e, [])
      | Inr parsed \<Rightarrow>
          (case destructure_prompt ''JSON.parse(...)'' parsed of
             Inl e \<Rightarrow> (Inl e, [])
           | Inr None \<Rightarrow> (Inr (json_response 400 (JObj [(''error'', JStr ''Prompt is required'')])), [])
           | Inr (Some prompt) \<Rightarrow>
               if \<not> json_truthy prompt then
                 (Inr (json_response 400 (JObj [(''error'', JStr ''Prompt is required'')])), [])
               else if \<not> truthy_str (rt_apiKey rt) then
                 (Inr (json_response 500 (JObj [(''error'', JStr ''GEMINI_API_KEY not configured'')])), [])
               else
                 (case rt_generateContentStream rt (generateRequest prompt) of
                    Inl e \<Rightarrow> (Inl e, [generateRequest prompt])
                  | Inr response \<Rightarrow>
                      (case processAIResponse (rt_getExtension rt) (rt_now rt) response ''text_to_image'' of
                         Inl e \<Rightarrow> (Inl e, [generateRequest prompt])
                       | Inr results \<Rightarrow>
                           if results = [] then
                             (Inr (json_response 500 (JObj [(''error'', JStr ''No content generated'')])),
                              [generateRequest prompt])
                           else
                             (Inr (json_response 200 (successBody prompt [] (map result_json results))),
                              [generateRequest prompt])))))"

definition generate_image_handler :: "runtime \<Rightarrow> event \<Rightarrow> response \<times> gen_request list" where
  "generate_image_handler rt ev =
     (if httpMethod ev = ''OPTIONS'' then (preflight_response, [])
      else if httpMethod ev \<noteq> ''POST'' then
        (json_response 405 (JObj [(''error'', JStr ''Method not allowed'')]), [])
      else
        (case generate_image_try rt ev of
           (Inr r, sent) \<Rightarrow> (r, sent)
         | (Inl e, sent) \<Rightarrow>
             (case catchError netlifyKeyHint ''Failed to generate image'' e of
                (code, obj) \<Rightarrow> (json_response code obj, sent))))"

text \<open>
  The route \<open>/api/generate-image\<close> of the server; \<open>req.body\<close> is what the JSON
  middleware left there, \<open>None\<close> when it left nothing.
\<close>

definition api_generate_image_try ::
  "runtime \<Rightarrow> json option \<Rightarrow> (js_error + express_response) \<times> gen_request list" where
  "api_generate_image_try rt req_body =
     (case req_body of
        None \<Rightarrow> (Inl (typeError_destructure ''prompt'' ''req.body'' ''undefined''), [])
      | Some parsed \<Rightarrow>
          (case destructure_prompt ''req.body'' parsed of
             Inl e \<Rightarrow> (Inl e, [])
           | Inr None \<Rightarrow>
               (Inr \<lparr>res_status = 400, res_json = JObj [(''error'', JStr ''Prompt is required'')]\<rparr>, [])
           | Inr (Some prompt) \<Rightarrow>
               if \<not> json_truthy prompt then
                 (Inr \<lparr>res_status = 400, res_json = JObj [(''error'', JStr ''Prompt is required'')]\<rparr>, [])
               else if \<not> truthy_str (rt_apiKey rt) then
                 (Inr \<lparr>res_status = 500,
                       res_json = JObj [(''error'', JStr ''GEMINI_API_KEY not configured'')]\<rparr>, [])
               else
                 (case rt_generateContentStream rt (generateRequest prompt) of
                    Inl e \<Rightarrow> (Inl e, [generateRequest prompt])
                  | Inr response \<Rightarrow>
                      (case serverProcessAIResponse (rt_getExtension rt) (rt_now rt) (rt_fs_write rt)
                              response ''text_to_image'' of
                         Inl e \<Rightarrow> (Inl e, [generateRequest prompt])
                       | Inr results \<Rightarrow>
                           if results = [] then
                             (Inr \<lparr>res_status = 500,
                                   res_json = JObj [(''error'', JStr ''No content generated'')]\<rparr>,
                              [generateRequest prompt])
                           else
                             (Inr \<lparr>res_status = 200,
                                   res_json = successBody prompt [] (map server_result_json results)\<rparr>,
                              [generateRequest prompt])))))"

definition api_generate_image :: "runtime \<Rightarrow> json option \<Rightarrow> express_response \<times> gen_request list" where
  "api_generate_image rt req_body =
     (case api_generate_image_try rt req_body of
        (Inr r, sent) \<Rightarrow> (r, sent)
      | (Inl e, sent) \<Rightarrow>
          (case catchError serverKeyHint ''Failed to generate image'' e of
             (code, obj) \<Rightarrow> (\<lparr>res_status = code, res_json = obj\<rparr>, sent)))"

subsection \<open>String methods used by the multipart parser\<close>

fun startsWith :: "string \<Rightarrow> string \<Rightarrow> bool" where
  "startsWith s [] = True"
| "startsWith [] (p # ps) = False"
| "startsWith (c # cs) (p # ps) = (c = p \<and> startsWith cs ps)"

text \<open>\<open>s.indexOf(sub)\<close> and \<open>s.lastIndexOf(sub)\<close>, \<open>-1\<close> when \<open>sub\<close> does not occur.\<close>

fun indexOf :: "string \<Rightarrow> string \<Rightarrow> int" where
  "indexOf [] sub = (if sub = [] then 0 else - 1)"
| "indexOf (c # cs) sub =
     (if startsWith (c # cs) sub then 0
      else (let r = indexOf cs sub in if r < 0 then - 1 else r + 1))"

fun lastIndexOf :: "string \<Rightarrow> string \<Rightarrow> int" where
  "lastIndexOf [] sub = (if sub = [] then 0 else - 1)"
| "lastIndexOf (c # cs) sub =
     (let r = lastIndexOf cs sub in
      if 0 \<le> r then r + 1 else if startsWith (c # cs) sub then 0 else - 1)"

definition includes_str :: "string \<Rightarrow> string \<Rightarrow> bool" where
  "includes_str s sub = (0 \<le> indexOf s sub)"

text \<open>\<open>s.slice(a, b)\<close> for the indices the parser passes, \<open>0 \<le> a < b \<le> s.length\<close>.\<close>

definition slice :: "string \<Rightarrow> int \<Rightarrow> int \<Rightarrow> string" where
  "slice s a b = take (nat (b - a)) (drop (nat a) s)"

text \<open>\<open>s.split(sep)\<close>; \<open>cur\<close> is the piece being read.\<close>

fun split_from :: "string \<Rightarrow> string \<Rightarrow> string \<Rightarrow> string list" where
  "split_from sep cur [] = [cur]"
| "split_from sep cur (c # cs) =
     (if startsWith (c # cs) sep then cur # split_from sep [] (drop (length sep - 1) cs)
      else split_from sep (cur @ [c]) cs)"

definition split :: "string \<Rightarrow> string \<Rightarrow> string list" where
  "split s sep = (if sep = [] then map (\<lambda>c. [c]) s else split_from sep [] s)"

definition dquote :: char where
  "dquote = CHR 0x22"

definition CR :: char where
  "CR = CHR 0x0D"

definition LF :: char where
  "LF = CHR 0x0A"

definition CRLF :: string where
  "CRLF = [CR, LF]"

text \<open>
  \<open>part.match(/name="([^"]+)"/)\<close>: the leftmost place where \<open>name="\<close> is followed by a
  non-empty run without a quote and then a quote; the result is the run, the first
  capture group.
\<close>

fun match_name :: "string \<Rightarrow> string option" where
  "match_name [] = None"
| "match_name (c # cs) =
     (let rest = drop 6 (c # cs);
          run = takeWhile (\<lambda>x. x \<noteq> dquote) rest
      in if startsWith (c # cs) (''name='' @ [dquote]) \<and> run \<noteq> []
            \<and> startsWith (dropWhile (\<lambda>x. x \<noteq> dquote) rest) [dquote]
         then Some run else match_name cs)"

text \<open>\<open>part.match(/Content-Type: ([^\r\n]+)/)\<close>, likewise.\<close>

fun match_content_type :: "string \<Rightarrow> string option" where
  "match_content_type [] = None"
| "match_content_type (c # cs) =
     (let run = takeWhile (\<lambda>x. x \<noteq> CR \<and> x \<noteq> LF) (drop 14 (c # cs))
      in if startsWith (c # cs) ''Content-Type: '' \<and> run \<noteq> []
         then Some run else match_content_type cs)"

subsection \<open>parseMultipartFormData\<close>

record image_file =
  img_data :: string
  img_mimeType :: string

text \<open>
  The object \<open>formData\<close>: its property \<open>image\<close>, set by the image branch only, and its
  text properties, the latest assignment first.
\<close>

record form_data =
  fd_fields :: "(string \<times> string) list"
  fd_image :: "image_file option"

definition parsePart :: "(string \<Rightarrow> string) \<Rightarrow> form_data \<Rightarrow> string \<Rightarrow> form_data" where
  "parsePart base64 formData part =
     (if includes_str part ''Content-Disposition'' then
        (case match_name part of
           None \<Rightarrow> formData
         | Some fieldName \<Rightarrow>
             (let dataStart = indexOf part (CRLF @ CRLF) + 4;
                  dataEnd = lastIndexOf part CRLF
              in if fieldName = ''image'' then
                   (let mimeType = (case match_content_type part of
                                      Some m \<Rightarrow> m | None \<Rightarrow> ''application/octet-stream'')
                    in if dataStart > 3 \<and> dataEnd > dataStart then
                         formData\<lparr>fd_image :=
                           Some \<lparr>img_data = base64 (slice part dataStart dataEnd),
                                 img_mimeType = mimeType\<rparr>\<rparr>
                       else formData)
                 else if dataStart > 3 \<and> dataEnd > dataStart then
                   formData\<lparr>fd_fields := (fieldName, slice part dataStart dataEnd) # fd_fields formData\<rparr>
                 else formData))
      else formData)"

definition parseMultipartFormData :: "(string \<Rightarrow> string) \<Rightarrow> string \<Rightarrow> string \<Rightarrow> form_data" where
  "parseMultipartFormData base64 formBody boundary =
     foldl (parsePart base64) \<lparr>fd_fields = [], fd_image = None\<rparr> (split formBody (''--'' @ boundary))"

subsection \<open>Image manipulation\<close>

definition manipulateRequest :: "string \<Rightarrow> string \<Rightarrow> string \<Rightarrow> gen_request" where
  "manipulateRequest prompt mime payload =
     \<lparr>model = modelId, responseModalities = [''IMAGE'', ''TEXT''],
      contents = [\<lparr>role = ''user'',
                   req_parts = [TextPart (JStr (''Based on the uploaded image, '' @ prompt)),
                                InlineDataPart mime payload]\<rparr>]\<rparr>"

text \<open>\<open>event.headers['content-type'] || event.headers['Content-Type']\<close>.\<close>

definition contentTypeHeader :: "event \<Rightarrow> string option" where
  "contentTypeHeader ev =
     (if truthy_str (map_of (ev_headers ev) ''content-type'')
      then map_of (ev_headers ev) ''content-type''
      else map_of (ev_headers ev) ''Content-Type'')"

text \<open>\<open>contentType.split('boundary=')[1]\<close>, \<open>undefined\<close> when the array has one element.\<close>

definition boundaryOf :: "string \<Rightarrow> string option" where
  "boundaryOf contentType =
     (case split contentType ''boundary='' of
        a # b # rest \<Rightarrow> Some b
      | _ \<Rightarrow> None)"

text \<open>
  The part of the \<open>try\<close> block of the stateless \<open>handler\<close> of \<open>manipulate-image\<close> that
  follows the parsing of the form.
\<close>

definition manipulate_form :: "runtime \<Rightarrow> form_data \<Rightarrow> (js_error + response) \<times> gen_request list" where
  "manipulate_form rt formData =
     (if \<not> truthy_str (map_of (fd_fields formData) ''prompt'') then
        (Inr (json_response 400 (JObj [(''error'', JStr ''Prompt is required'')])), [])
      else
        (case (map_of (fd_fields formData) ''prompt'', fd_image formData) of
           (Some prompt, None) \<Rightarrow>
             (Inr (json_response 400 (JObj [(''error'', JStr ''Image file is required'')])), [])
         | (Some prompt, Some imageFile) \<Rightarrow>
             if \<not> truthy_str (rt_apiKey rt) then
               (Inr (json_response 500 (JObj [(''error'', JStr ''GEMINI_API_KEY not configured'')])), [])
             else
               (let req = manipulateRequest prompt (img_mimeType imageFile) (img_data imageFile) in
                case rt_generateContentStream rt req of
                  Inl e \<Rightarrow> (Inl e, [req])
                | Inr response \<Rightarrow>
                    (case processAIResponse (rt_getExtension rt) (rt_now rt) response
                            ''image_manipulation'' of
                       Inl e \<Rightarrow> (Inl e, [req])
                     | Inr results \<Rightarrow>
                         if results = [] then
                           (Inr (json_response 500 (JObj [(''error'', JStr ''No content generated'')])),
                            [req])
                         else
                           (Inr (json_response 200
                                  (successBody (JStr prompt)
                                     [(''originalImage'',
                                       JObj [(''mimeType'', JStr (img_mimeType imageFile))])]
                                     (map result_json results))),
                            [req])))
         | (None, _) \<Rightarrow>
             (Inr (json_response 400 (JObj [(''error'', JStr ''Prompt is required'')])), [])))"

definition manipulate_image_try :: "runtime \<Rightarrow> event \<Rightarrow> (js_error + response) \<times> gen_request list" where
  "manipulate_image_try rt ev =
     (case contentTypeHeader ev of
        None \<Rightarrow>
          (Inr (json_response 400
                 (JObj [(''error'', JStr ''Content-Type must be multipart/form-data'')])), [])
      | Some contentType \<Rightarrow>
          if contentType = [] \<or> \<not> includes_str contentType ''multipart/form-data'' then
            (Inr (json_response 400
                   (JObj [(''error'', JStr ''Content-Type must be multipart/form-data'')])), [])
          else if \<not> truthy_str (boundaryOf contentType) then
            (Inr (json_response 400 (JObj [(''error'', JStr ''Missing boundary in Content-Type'')])), [])
          else
            (case (ev_body ev, boundaryOf contentType) of
               (Some b, Some boundary) \<Rightarrow>
                 manipulate_form rt (parseMultipartFormData (rt_base64 rt) b boundary)
             | (None, _) \<Rightarrow> (Inl (typeError_reading ''null'' ''split''), [])
             | (_, None) \<Rightarrow>
                 (Inr (json_response 400
                        (JObj [(''error'', JStr ''Missing boundary in Content-Type'')])), [])))"

definition manipulate_image_handler :: "runtime \<Rightarrow> event \<Rightarrow> response \<times> gen_request list" where
  "manipulate_image_handler rt ev =
     (if httpMethod ev = ''OPTIONS'' then (preflight_response, [])
      else if httpMethod ev \<noteq> ''POST'' then
        (json_response 405 (JObj [(''error'', JStr ''Method not allowed'')]), [])
      else
        (case manipulate_image_try rt ev of
           (Inr r, sent) \<Rightarrow> (r, sent)
         | (Inl e, sent) \<Rightarrow>
             (case catchError netlifyKeyHint ''Failed to manipulate image'' e of
                (code, obj) \<Rightarrow> (json_response code obj, sent))))"

text \<open>
  The route \<open>/api/manipulate-image\<close> of the server, after the upload middleware: the
  text properties of \<open>req.body\<close> (\<open>None\<close> when there is no body object) and \<open>req.file\<close>.
\<close>

record upload =
  originalname :: string
  upload_size :: nat
  mimetype :: string
  buffer :: string

record manipulate_req =
  mreq_body :: "(string \<times> string) list option"
  mreq_file :: "upload option"

definition api_manipulate_image_try ::
  "runtime \<Rightarrow> manipulate_req \<Rightarrow> (js_error + express_response) \<times> gen_request list" where
  "api_manipulate_image_try rt req =
     (case mreq_body req of
        None \<Rightarrow> (Inl (typeError_destructure ''prompt'' ''req.body'' ''undefined''), [])
      | Some textFields \<Rightarrow>
          if \<not> truthy_str (map_of textFields ''prompt'') then
            (Inr \<lparr>res_status = 400, res_json = JObj [(''error'', JStr ''Prompt is required'')]\<rparr>, [])
          else
            (case (map_of textFields ''prompt'', mreq_file req) of
               (Some prompt, None) \<Rightarrow>
                 (Inr \<lparr>res_status = 400,
                       res_json = JObj [(''error'', JStr ''Image file is required'')]\<rparr>, [])
             | (Some prompt, Some imageFile) \<Rightarrow>
                 if \<not> truthy_str (rt_apiKey rt) then
                   (Inr \<lparr>res_status = 500,
                         res_json = JObj [(''error'', JStr ''GEMINI_API_KEY not configured'')]\<rparr>, [])
                 else
                   (let req = manipulateRequest prompt (mimetype imageFile)
                                (rt_base64 rt (buffer imageFile)) in
                    case rt_generateContentStream rt req of
                      Inl e \<Rightarrow> (Inl e, [req])
                    | Inr response \<Rightarrow>
                        (case serverProcessAIResponse (rt_getExtension rt) (rt_now rt)
                                (rt_fs_write rt) response ''image_manipulation'' of
                           Inl e \<Rightarrow> (Inl e, [req])
                         | Inr results \<Rightarrow>
                             if results = [] then
                               (Inr \<lparr>res_status = 500,
                                     res_json = JObj [(''error'', JStr ''No content generated'')]\<rparr>,
                                [req])
                             else
                               (Inr \<lparr>res_status = 200,
                                     res_json =
                                       successBody (JStr prompt)
                                         [(''originalImage'',
                                           JObj [(''name'', JStr (originalname imageFile)),
                                                 (''size'', JNum (int (upload_size imageFile))),
                                                 (''mimeType'', JStr (mimetype imageFile))])]
                                         (map server_result_json results)\<rparr>,
                                [req])))
             | (None, _) \<Rightarrow>
                 (Inr \<lparr>res_status = 400, res_json = JObj [(''error'', JStr ''Prompt is required'')]\<rparr>,
                  [])))"

definition api_manipulate_image ::
  "runtime \<Rightarrow> manipulate_req \<Rightarrow> express_response \<times> gen_request list" where
  "api_manipulate_image rt req =
     (case api_manipulate_image_try rt req of
        (Inr r, sent) \<Rightarrow> (r, sent)
      | (Inl e, sent) \<Rightarrow>
          (case catchError serverKeyHint ''Failed to manipulate image'' e of
             (code, obj) \<Rightarrow> (\<lparr>res_status = code, res_json = obj\<rparr>, sent)))"

section \<open>The normaliser as the specification words it\<close>

text \<open>
  What a result was made from: an image with its declared media type, or a text with
  its content. Both deployments produce results of these two kinds.
\<close>

datatype kind = KImage "string option" | KText string

fun result_kind :: "result \<Rightarrow> kind" where
  "result_kind (Image d m f) = KImage m"
| "result_kind (Text c) = KText c"

fun server_result_kind :: "server_result \<Rightarrow> kind" where
  "server_result_kind (ServerImage u m) = KImage m"
| "server_result_kind (ServerText c) = KText c"

text \<open>
  A chunk has a well-formed candidates/content/parts path when its first candidate
  exists and has a content that has a parts array.
\<close>

definition wellFormedPath :: "chunk \<Rightarrow> bool" where
  "wellFormedPath c =
     (case candidates c of
        Some (cand # _) \<Rightarrow> (case content cand of Some ct \<Rightarrow> parts ct \<noteq> None | None \<Rightarrow> False)
      | _ \<Rightarrow> False)"

text \<open>
  The four steps of the specified normaliser on one chunk: skip a chunk without a
  well-formed path; an image when the first part carries inline data; else a text when
  the chunk carries a non-empty text; else nothing.
\<close>

definition normalize_step :: "chunk \<Rightarrow> kind option" where
  "normalize_step c =
     (if \<not> wellFormedPath c then None
      else (case firstInlineData c of
              Some b \<Rightarrow> Some (KImage (mimeType b))
            | None \<Rightarrow> (case text_field c of
                         Some t \<Rightarrow> if t = [] then None else Some (KText t)
                       | None \<Rightarrow> None)))"

text \<open>A well-formed text chunk, and a well-formed inline-binary chunk.\<close>

definition textChunk :: "chunk \<Rightarrow> bool" where
  "textChunk c = (wellFormedPath c \<and> firstInlineData c = None \<and> truthy_str (text_field c))"

definition inlineChunk :: "chunk \<Rightarrow> bool" where
  "inlineChunk c = (firstInlineData c \<noteq> None)"

text \<open>
  The image result specified for the \<open>k\<close>-th inline-binary chunk, with the file name
  \<open>{baseName}_{timestampMillis}_{index}.{ext}\<close>.
\<close>

definition imageOf :: "(string \<Rightarrow> string option) \<Rightarrow> (nat \<Rightarrow> int) \<Rightarrow> string \<Rightarrow> nat \<Rightarrow> chunk \<Rightarrow> result" where
  "imageOf ge now b k c =
     Image (data (the (firstInlineData c))) (mimeType (the (firstInlineData c)))
       (b @ ''_'' @ show_int (now k) @ ''_'' @ show_nat k @ ''.''
          @ fileExtension ge (the (firstInlineData c)))"

section \<open>Reading decimal numerals back\<close>

definition is_digit :: "char \<Rightarrow> bool" where
  "is_digit c = (48 \<le> (of_char c :: nat) \<and> (of_char c :: nat) < 58)"

definition digit_val :: "char \<Rightarrow> nat" where
  "digit_val c = of_char c - 48"

definition decimal_val :: "string \<Rightarrow> nat" where
  "decimal_val s = foldl (\<lambda>a c. 10 * a + digit_val c) 0 s"

section \<open>Sample inputs\<close>

text \<open>
  An excerpt of the table of the \<open>mime\<close> package, a clock that stands still, and
  chunks of the three shapes the model client sends.
\<close>

definition sample_getExtension :: "string \<Rightarrow> string option" where
  "sample_getExtension m =
     (if m = ''image/png'' then Some ''png''
      else if m = ''image/jpeg'' then Some ''jpeg''
      else if m = ''image/webp'' then Some ''webp''
      else None)"

definition imageChunk :: "string option \<Rightarrow> string option \<Rightarrow> chunk" where
  "imageChunk d m =
     \<lparr>candidates = Some [\<lparr>content = Some \<lparr>parts = Some [\<lparr>inlineData = Some \<lparr>data = d, mimeType = m\<rparr>\<rparr>]\<rparr>\<rparr>],
      text_field = None\<rparr>"

definition plainChunk :: "string option \<Rightarrow> chunk" where
  "plainChunk t =
     \<lparr>candidates = Some [\<lparr>content = Some \<lparr>parts = Some [\<lparr>inlineData = None\<rparr>]\<rparr>\<rparr>], text_field = t\<rparr>"

definition sample_now :: "nat \<Rightarrow> int" where
  "sample_now k = 1700000000000"

section \<open>Requests that reach the model client\<close>

text \<open>
  A text-to-image request passes the checks of the handler when it is a POST whose body
  parses to an object with a truthy \<open>prompt\<close> and the credential is set; on the
  server the body has been parsed by the middleware.
\<close>

definition generateAccepted :: "runtime \<Rightarrow> event \<Rightarrow> (string \<times> json) list \<Rightarrow> json \<Rightarrow> bool" where
  "generateAccepted rt ev kvs p =
     (httpMethod ev = ''POST''
      \<and> rt_JSON_parse rt (ev_body ev) = Inr (JObj kvs) \<and> map_of kvs ''prompt'' = Some p
      \<and> json_truthy p \<and> truthy_str (rt_apiKey rt))"

definition apiGenerateAccepted :: "runtime \<Rightarrow> json option \<Rightarrow> (string \<times> json) list \<Rightarrow> json \<Rightarrow> bool" where
  "apiGenerateAccepted rt req_body kvs p =
     (req_body = Some (JObj kvs) \<and> map_of kvs ''prompt'' = Some p
      \<and> json_truthy p \<and> truthy_str (rt_apiKey rt))"

text \<open>
  The model client fails with \<open>e\<close>: the call throws it, or the stream throws it after
  chunks that the normaliser accepts.
\<close>

definition upstreamFails :: "runtime \<Rightarrow> gen_request \<Rightarrow> js_error \<Rightarrow> bool" where
  "upstreamFails rt req e =
     (case rt_generateContentStream rt req of
        Inl e' \<Rightarrow> e' = e
      | Inr (cs, closing) \<Rightarrow> closing = Some e \<and> list_all (\<lambda>c. candidates c \<noteq> Some []) cs)"

text \<open>The HTTP status by which a failure of the model client is answered.\<close>

definition statusFor :: "js_error \<Rightarrow> nat" where
  "statusFor e =
     (if status e = Some 429 then 429 else if status e = Some 401 then 401
      else if status e = Some 400 then 400 else 500)"

text \<open>
  A runtime for the examples: the sample table and clock, a parser that knows two
  bodies, an encoder and a file system that do nothing.
\<close>

definition sample_body :: string where
  "sample_body = ''{'' @ [dquote] @ ''prompt'' @ [dquote] @ '':'' @ [dquote] @ ''a red circle''
                 @ [dquote] @ ''}''"

definition sample_JSON_parse :: "string option \<Rightarrow> js_error + json" where
  "sample_JSON_parse s =
     (if s = Some sample_body then Inr (JObj [(''prompt'', JStr ''a red circle'')])
      else if s = Some ''{}'' then Inr (JObj [])
      else if s = None then Inr JNull
      else Inl \<lparr>status = None, message = Some ''Unexpected token''\<rparr>)"

definition sample_runtime :: "string option \<Rightarrow> (gen_request \<Rightarrow> js_error + stream) \<Rightarrow> runtime" where
  "sample_runtime key upstream =
     \<lparr>rt_getExtension = sample_getExtension, rt_now = sample_now, rt_apiKey = key,
      rt_generateContentStream = upstream, rt_JSON_parse = sample_JSON_parse,
      rt_base64 = (\<lambda>s. s), rt_fs_write = (\<lambda>f p. None)\<rparr>"

definition sample_event :: "string \<Rightarrow> event" where
  "sample_event b =
     \<lparr>httpMethod = ''POST'', ev_headers = [(''content-type'', ''application/json'')],
      ev_body = Some b\<rparr>"

text \<open>The failure the model client reports when the quota is used up.\<close>

definition rateLimited :: js_error where
  "rateLimited = \<lparr>status = Some 429, message = Some ''Resource has been exhausted''\<rparr>"

section \<open>Image-manipulation requests\<close>

text \<open>
  An image-manipulation event gets as far as its form when it is a POST with a
  multipart content type that names a boundary and it has a body; \<open>formData\<close> is
  what the parser makes of the body.
\<close>

definition manipulateParsed ::
  "runtime \<Rightarrow> event \<Rightarrow> string \<Rightarrow> string \<Rightarrow> string \<Rightarrow> form_data \<Rightarrow> bool" where
  "manipulateParsed rt ev contentType boundary raw formData =
     (httpMethod ev = ''POST''
      \<and> contentTypeHeader ev = Some contentType \<and> contentType \<noteq> []
      \<and> includes_str contentType ''multipart/form-data''
      \<and> boundaryOf contentType = Some boundary \<and> boundary \<noteq> []
      \<and> ev_body ev = Some raw
      \<and> parseMultipartFormData (rt_base64 rt) raw boundary = formData)"

text \<open>
  Sample multipart bodies with the boundary \<open>XYZ\<close>: a prompt part, an image part, a
  form with the prompt only and a form with both.
\<close>

definition sample_prompt_part :: string where
  "sample_prompt_part =
     ''--XYZ'' @ CRLF @ ''Content-Disposition: form-data; name='' @ [dquote] @ ''prompt'' @ [dquote]
     @ CRLF @ CRLF @ ''make it blue'' @ CRLF"

definition sample_image_part :: string where
  "sample_image_part =
     ''--XYZ'' @ CRLF @ ''Content-Disposition: form-data; name='' @ [dquote] @ ''image'' @ [dquote]
     @ ''; filename='' @ [dquote] @ ''a.png'' @ [dquote] @ CRLF @ ''Content-Type: image/png''
     @ CRLF @ CRLF @ ''PNGDATA'' @ CRLF"

definition sample_form_prompt_only :: string where
  "sample_form_prompt_only = sample_prompt_part @ ''--XYZ--'' @ CRLF"

definition sample_form_with_image :: string where
  "sample_form_with_image = sample_prompt_part @ sample_image_part @ ''--XYZ--'' @ CRLF"

definition sample_form_event :: "string \<Rightarrow> event" where
  "sample_form_event raw =
     \<lparr>httpMethod = ''POST'',
      ev_headers = [(''content-type'', ''multipart/form-data; boundary=XYZ'')],
      ev_body = Some raw\<rparr>"

text \<open>
  The request to the model client whose text part is \<open>Based on the uploaded image, \<close>
  followed by the prompt.
\<close>

definition basedOnImage :: "string \<Rightarrow> string \<Rightarrow> string \<Rightarrow> gen_request" where
  "basedOnImage p mime payload =
     \<lparr>model = ''gemini-2.5-flash-image-preview'', responseModalities = [''IMAGE'', ''TEXT''],
      contents = [\<lparr>role = ''user'',
                   req_parts = [TextPart (JStr (''Based on the uploaded image, '' @ p)),
                                InlineDataPart mime payload]\<rparr>]\<rparr>"

text \<open>
  The stream of the end-to-end scenario, one inline-binary chunk of type \<open>image/png\<close>
  followed by the text chunk \<open>done\<close>, and an uploaded file.
\<close>

definition sample_stream :: stream where
  "sample_stream = ([imageChunk (Some ''AAAA'') (Some ''image/png''), plainChunk (Some ''done'')], None)"

definition sample_upload :: upload where
  "sample_upload =
     \<lparr>originalname = ''a.png'', upload_size = 7, mimetype = ''image/png'', buffer = ''PNGDATA''\<rparr>"

section \<open>The normaliser follows its specification\<close>

lemma skipGuard_wellFormed:
  "candidates c \<noteq> Some [] \<Longrightarrow> skipGuard c = Inr (\<not> wellFormedPath c)"
  by (simp add: skipGuard_def wellFormedPath_def split: option.splits list.splits)

lemma processLoop_step:
  assumes "candidates c \<noteq> Some []"
  shows "processLoop ge now b (c # cs) i acc =
     (case normalize_step c of
        None \<Rightarrow> processLoop ge now b cs i acc
      | Some (KText t) \<Rightarrow> processLoop ge now b cs i (acc @ [Text t])
      | Some (KImage m) \<Rightarrow> processLoop ge now b cs (Suc i)
          (acc @ [Image (data (the (firstInlineData c))) m
                    (fileName now b i @ ''.'' @ fileExtension ge (the (firstInlineData c)))]))"
  using skipGuard_wellFormed [OF assms]
  by (simp add: normalize_step_def split: option.splits)

lemma processLoop_kinds:
  assumes "\<forall>c\<in>set cs. candidates c \<noteq> Some []"
  shows "\<exists>rs. processLoop ge now b cs i acc = Inr (acc @ rs)
              \<and> map result_kind rs = List.map_filter normalize_step cs"
  using assms
proof (induction cs arbitrary: i acc)
  case Nil
  then show ?case by (simp add: map_filter_simps)
next
  case (Cons c cs)
  then have c: "candidates c \<noteq> Some []" and cs: "\<forall>c\<in>set cs. candidates c \<noteq> Some []"
    by simp_all
  show ?case
  proof (cases "normalize_step c")
    case None
    with Cons.IH [OF cs, of i acc] show ?thesis
      by (simp add: processLoop_step [OF c] map_filter_simps del: processLoop.simps)
  next
    case (Some k)
    show ?thesis
    proof (cases k)
      case (KImage m)
      let ?r = "Image (data (the (firstInlineData c))) m
                    (fileName now b i @ ''.'' @ fileExtension ge (the (firstInlineData c)))"
      from Cons.IH [OF cs, of "Suc i" "acc @ [?r]"] obtain rs where
        "processLoop ge now b cs (Suc i) (acc @ [?r]) = Inr ((acc @ [?r]) @ rs)"
        "map result_kind rs = List.map_filter normalize_step cs" by blast
      with Some KImage show ?thesis
        by (intro exI [of _ "?r # rs"])
           (simp add: processLoop_step [OF c] map_filter_simps del: processLoop.simps)
    next
      case (KText t)
      from Cons.IH [OF cs, of i "acc @ [Text t]"] obtain rs where
        "processLoop ge now b cs i (acc @ [Text t]) = Inr ((acc @ [Text t]) @ rs)"
        "map result_kind rs = List.map_filter normalize_step cs" by blast
      with Some KText show ?thesis
        by (intro exI [of _ "Text t # rs"])
           (simp add: processLoop_step [OF c] map_filter_simps del: processLoop.simps)
    qed
  qed
qed

lemma textChunk_step:
  "textChunk c \<Longrightarrow> candidates c \<noteq> Some [] \<and> normalize_step c = Some (KText (the (text_field c)))"
  by (auto simp: textChunk_def normalize_step_def wellFormedPath_def truthy_str_def
           split: option.splits list.splits)

lemma processLoop_text_only:
  assumes "\<forall>c\<in>set cs. textChunk c"
  shows "processLoop ge now b cs i acc = Inr (acc @ map (\<lambda>c. Text (the (text_field c))) cs)"
  using assms
proof (induction cs arbitrary: acc)
  case Nil
  then show ?case by simp
next
  case (Cons c cs)
  then have "textChunk c" by simp
  from textChunk_step [OF this] Cons show ?case
    by (simp add: processLoop_step del: processLoop.simps)
qed

lemma serverProcessLoop_step:
  assumes "candidates c \<noteq> Some []" and "\<forall>f p. w f p = None"
  shows "serverProcessLoop ge now w b (c # cs) i acc =
     (case normalize_step c of
        None \<Rightarrow> serverProcessLoop ge now w b cs i acc
      | Some (KText t) \<Rightarrow> serverProcessLoop ge now w b cs i (acc @ [ServerText t])
      | Some (KImage m) \<Rightarrow> serverProcessLoop ge now w b cs (Suc i)
          (acc @ [ServerImage (''/generated/'' @ fileName now b i @ ''.''
                                 @ fileExtension ge (the (firstInlineData c))) m]))"
  using skipGuard_wellFormed [OF assms(1)] assms(2)
  by (simp add: normalize_step_def saveBinaryFile_def split: option.splits)

lemma serverProcessLoop_kinds:
  assumes "\<forall>c\<in>set cs. candidates c \<noteq> Some []" and w: "\<forall>f p. w f p = None"
  shows "\<exists>rs. serverProcessLoop ge now w b cs i acc = Inr (acc @ rs)
              \<and> map server_result_kind rs = List.map_filter normalize_step cs"
  using assms(1)
proof (induction cs arbitrary: i acc)
  case Nil
  then show ?case by (simp add: map_filter_simps)
next
  case (Cons c cs)
  then have c: "candidates c \<noteq> Some []" and cs: "\<forall>c\<in>set cs. candidates c \<noteq> Some []"
    by simp_all
  note step = serverProcessLoop_step [OF c w]
  show ?case
  proof (cases "normalize_step c")
    case None
    with Cons.IH [OF cs, of i acc] show ?thesis
      by (simp add: step map_filter_simps del: serverProcessLoop.simps)
  next
    case (Some k)
    show ?thesis
    proof (cases k)
      case (KImage m)
      let ?r = "ServerImage (''/generated/'' @ fileName now b i @ ''.''
                                 @ fileExtension ge (the (firstInlineData c))) m"
      from Cons.IH [OF cs, of "Suc i" "acc @ [?r]"] obtain rs where
        "serverProcessLoop ge now w b cs (Suc i) (acc @ [?r]) = Inr ((acc @ [?r]) @ rs)"
        "map server_result_kind rs = List.map_filter normalize_step cs" by blast
      with Some KImage show ?thesis
        by (intro exI [of _ "?r # rs"])
           (simp add: step map_filter_simps del: serverProcessLoop.simps)
    next
      case (KText t)
      from Cons.IH [OF cs, of i "acc @ [ServerText t]"] obtain rs where
        "serverProcessLoop ge now w b cs i (acc @ [ServerText t]) = Inr ((acc @ [ServerText t]) @ rs)"
        "map server_result_kind rs = List.map_filter normalize_step cs" by blast
      with Some KText show ?thesis
        by (intro exI [of _ "ServerText t # rs"])
           (simp add: step map_filter_simps del: serverProcessLoop.simps)
    qed
  qed
qed

lemma serverProcessLoop_text_only:
  assumes "\<forall>c\<in>set cs. textChunk c"
  shows "serverProcessLoop ge now w b cs i acc = Inr (acc @ map (\<lambda>c. ServerText (the (text_field c))) cs)"
  using assms
proof (induction cs arbitrary: acc)
  case Nil
  then show ?case by simp
next
  case (Cons c cs)
  then have "textChunk c" by simp
  then have "skipGuard c = Inr False" "firstInlineData c = None" "truthy_str (text_field c)"
    using skipGuard_wellFormed [of c] textChunk_step [of c] by (simp_all add: textChunk_def)
  with Cons show ?case
    by (auto simp: truthy_str_def split: option.splits)
qed

text \<open>
  C2 (as amended). Whenever no chunk has an empty candidates array,
  \<open>processAIResponse\<close> returns a list that holds, in arrival order, exactly one
  result for each chunk that has a well-formed candidates/content/parts path and whose
  first part carries inline data (an image) or, failing that, whose text is a non-empty
  string (a text with that content verbatim), and nothing for any other chunk; equal or
  adjacent texts are neither merged nor dropped. For well-formed text chunks only, the
  list is exactly the texts of the chunks in order. The same holds for the server when
  no file write fails.
\<close>

theorem C2_amended:
  assumes "\<forall>c\<in>set cs. candidates c \<noteq> Some []"
  shows "(\<exists>rs. processAIResponse ge now (cs, None) b = Inr rs
            \<and> map result_kind rs = List.map_filter normalize_step cs
            \<and> ((\<forall>c\<in>set cs. textChunk c) \<longrightarrow> rs = map (\<lambda>c. Text (the (text_field c))) cs))
       \<and> ((\<forall>f p. w f p = None) \<longrightarrow>
           (\<exists>rs. serverProcessAIResponse ge now w (cs, None) b = Inr rs
              \<and> map server_result_kind rs = List.map_filter normalize_step cs
              \<and> ((\<forall>c\<in>set cs. textChunk c) \<longrightarrow> rs = map (\<lambda>c. ServerText (the (text_field c))) cs)))"
proof (intro conjI impI)
  from processLoop_kinds [OF assms, where ge = ge and now = now and b = b and i = 0 and acc = "[]"] obtain rs where
    rs: "processLoop ge now b cs 0 [] = Inr rs" "map result_kind rs = List.map_filter normalize_step cs"
    by auto
  have "(\<forall>c\<in>set cs. textChunk c) \<longrightarrow> rs = map (\<lambda>c. Text (the (text_field c))) cs"
    using rs(1) processLoop_text_only [where cs = cs and ge = ge and now = now and b = b and i = 0 and acc = "[]"] by auto
  with rs show "\<exists>rs. processAIResponse ge now (cs, None) b = Inr rs
            \<and> map result_kind rs = List.map_filter normalize_step cs
            \<and> ((\<forall>c\<in>set cs. textChunk c) \<longrightarrow> rs = map (\<lambda>c. Text (the (text_field c))) cs)"
    by (simp add: processAIResponse_def)
next
  assume w: "\<forall>f p. w f p = None"
  from serverProcessLoop_kinds [OF assms w, where ge = ge and now = now and b = b and i = 0 and acc = "[]"] obtain rs where
    rs: "serverProcessLoop ge now w b cs 0 [] = Inr rs"
        "map server_result_kind rs = List.map_filter normalize_step cs"
    by auto
  have "(\<forall>c\<in>set cs. textChunk c) \<longrightarrow> rs = map (\<lambda>c. ServerText (the (text_field c))) cs"
    using rs(1) serverProcessLoop_text_only [where cs = cs and ge = ge and now = now and w = w and b = b and i = 0 and acc = "[]"] by auto
  with rs show "\<exists>rs. serverProcessAIResponse ge now w (cs, None) b = Inr rs
              \<and> map server_result_kind rs = List.map_filter normalize_step cs
              \<and> ((\<forall>c\<in>set cs. textChunk c) \<longrightarrow> rs = map (\<lambda>c. ServerText (the (text_field c))) cs)"
    by (simp add: serverProcessAIResponse_def)
qed

section \<open>Generated file names\<close>

lemma show_nat_small: "n < 10 \<Longrightarrow> show_nat n = [digit_char n]"
  by (subst show_nat.simps) simp

lemma show_nat_large: "\<not> n < 10 \<Longrightarrow> show_nat n = show_nat (n div 10) @ [digit_char (n mod 10)]"
  by (subst show_nat.simps) simp

lemma is_digit_digit_char: "d < 10 \<Longrightarrow> is_digit (digit_char d)"
  by (simp add: is_digit_def digit_char_def)

lemma show_nat_digits: "list_all is_digit (show_nat n)"
proof (induction n rule: show_nat.induct)
  case (1 n)
  show ?case
  proof (cases "n < 10")
    case True
    then show ?thesis
      by (simp add: show_nat_small is_digit_digit_char)
  next
    case False
    then show ?thesis
      using 1 [OF False] by (simp add: show_nat_large is_digit_digit_char)
  qed
qed

lemma show_nat_no_underscore: "CHR ''_'' \<notin> set (show_nat n)"
proof
  assume "CHR ''_'' \<in> set (show_nat n)"
  with show_nat_digits [of n] have "is_digit (CHR ''_'')"
    unfolding list_all_iff by (rule bspec)
  then show False by (simp add: is_digit_def)
qed

lemma show_nat_no_dot: "CHR ''.'' \<notin> set (show_nat n)"
proof
  assume "CHR ''.'' \<in> set (show_nat n)"
  with show_nat_digits [of n] have "is_digit (CHR ''.'')"
    unfolding list_all_iff by (rule bspec)
  then show False by (simp add: is_digit_def)
qed

lemma show_int_no_underscore: "CHR ''_'' \<notin> set (show_int i)"
  using show_nat_no_underscore by (simp add: show_int_def)

lemma digit_val_digit_char: "d < 10 \<Longrightarrow> digit_val (digit_char d) = d"
  by (simp add: digit_val_def digit_char_def)

lemma decimal_val_snoc: "decimal_val (s @ [c]) = 10 * decimal_val s + digit_val c"
  by (simp add: decimal_val_def)

lemma decimal_val_show_nat: "decimal_val (show_nat n) = n"
proof (induction n rule: show_nat.induct)
  case (1 n)
  show ?case
  proof (cases "n < 10")
    case True
    then show ?thesis
      by (simp only: show_nat_small decimal_val_def foldl.simps digit_val_digit_char
            mult_zero_right add_0)
  next
    case False
    have "decimal_val (show_nat n)
        = 10 * decimal_val (show_nat (n div 10)) + digit_val (digit_char (n mod 10))"
      by (simp only: show_nat_large [OF False] decimal_val_snoc)
    also have "\<dots> = 10 * (n div 10) + n mod 10"
      by (simp only: 1 [OF False] digit_val_digit_char [of "n mod 10"] pos_mod_bound)
    also have "\<dots> = n" by (rule mult_div_mod_eq)
    finally show ?thesis .
  qed
qed

lemma show_nat_inj: "show_nat m = show_nat n \<Longrightarrow> m = n"
  by (metis decimal_val_show_nat)

lemma split_at_first:
  "x \<notin> set xs \<Longrightarrow> x \<notin> set ys \<Longrightarrow> xs @ x # xs' = ys @ x # ys' \<Longrightarrow> xs = ys \<and> xs' = ys'"
proof (induction xs arbitrary: ys)
  case Nil
  then show ?case by (cases ys) auto
next
  case (Cons a xs)
  then show ?case by (cases ys) auto
qed

lemma generated_name_inj:
  assumes "b @ ''_'' @ show_int t @ ''_'' @ show_nat i @ ''.'' @ e1
         = b @ ''_'' @ show_int t' @ ''_'' @ show_nat j @ ''.'' @ e2"
  shows "i = j"
proof -
  let ?A = "show_nat i @ CHR ''.'' # e1" and ?B = "show_nat j @ CHR ''.'' # e2"
  have l: "b @ ''_'' @ show_int t @ ''_'' @ show_nat i @ ''.'' @ e1
         = b @ CHR ''_'' # (show_int t @ CHR ''_'' # ?A)"
    by (simp only: append_Cons append_Nil)
  have r: "b @ ''_'' @ show_int t' @ ''_'' @ show_nat j @ ''.'' @ e2
         = b @ CHR ''_'' # (show_int t' @ CHR ''_'' # ?B)"
    by (simp only: append_Cons append_Nil)
  from assms have "b @ CHR ''_'' # (show_int t @ CHR ''_'' # ?A)
      = b @ CHR ''_'' # (show_int t' @ CHR ''_'' # ?B)"
    by (simp only: l r)
  then have "CHR ''_'' # (show_int t @ CHR ''_'' # ?A)
      = CHR ''_'' # (show_int t' @ CHR ''_'' # ?B)"
    by (rule same_append_eq [THEN iffD1])
  then have eq: "show_int t @ CHR ''_'' # ?A = show_int t' @ CHR ''_'' # ?B"
    by (rule list.inject [THEN iffD1, THEN conjunct2])
  have "show_int t = show_int t' \<and> ?A = ?B"
    by (rule split_at_first [OF show_int_no_underscore show_int_no_underscore eq])
  then have "?A = ?B" by (rule conjunct2)
  then have "show_nat i = show_nat j \<and> e1 = e2"
    by (rule split_at_first [OF show_nat_no_dot show_nat_no_dot])
  then have "show_nat i = show_nat j" by (rule conjunct1)
  then show ?thesis by (rule show_nat_inj)
qed

lemma inlineChunk_guard: "inlineChunk c \<Longrightarrow> skipGuard c = Inr False"
  by (auto simp: inlineChunk_def firstInlineData_def skipGuard_def split: option.splits list.splits)

lemma processLoop_images:
  assumes "\<forall>c\<in>set cs. inlineChunk c"
  shows "processLoop ge now b cs i acc
       = Inr (acc @ map (\<lambda>(k, c). imageOf ge now b k c) (enumerate i cs))"
  using assms
proof (induction cs arbitrary: i acc)
  case Nil
  then show ?case by simp
next
  case (Cons c cs)
  then have c: "inlineChunk c" by simp
  then obtain bl where bl: "firstInlineData c = Some bl"
    by (auto simp: inlineChunk_def)
  from Cons inlineChunk_guard [OF c] bl show ?case
    by (simp add: imageOf_def fileName_def)
qed

text \<open>
  C4. For chunks that all are well-formed inline-binary chunks, \<open>processAIResponse\<close>
  returns one image per chunk, the \<open>k\<close>-th with the file name
  \<open>{baseName}_{timestampMillis}_{k}.{ext}\<close>, so that the indices count up from 0, and
  the file names of one call are pairwise distinct.
\<close>

theorem C4_filenames:
  assumes "\<forall>c\<in>set cs. inlineChunk c"
  shows "\<exists>rs. processAIResponse ge now (cs, None) b = Inr rs
            \<and> length rs = length cs
            \<and> (\<forall>k<length cs. rs ! k = imageOf ge now b k (cs ! k))
            \<and> distinct (map filename rs)"
proof -
  let ?rs = "map (\<lambda>(k, c). imageOf ge now b k c) (enumerate 0 cs)"
  have run: "processAIResponse ge now (cs, None) b = Inr ?rs"
    using processLoop_images [OF assms, where ge = ge and now = now and b = b and i = 0 and acc = "[]"]
    by (simp add: processAIResponse_def)
  have nth: "?rs ! k = imageOf ge now b k (cs ! k)" if "k < length cs" for k
    using that by (simp add: nth_enumerate_eq)
  have "distinct (map filename ?rs)"
    unfolding distinct_conv_nth
  proof (intro allI impI)
    fix i j
    assume i: "i < length (map filename ?rs)" and j: "j < length (map filename ?rs)" and ne: "i \<noteq> j"
    then have "i < length cs" "j < length cs" by simp_all
    then have "map filename ?rs ! i = filename (imageOf ge now b i (cs ! i))"
              "map filename ?rs ! j = filename (imageOf ge now b j (cs ! j))"
      using nth by simp_all
    moreover have "filename (imageOf ge now b i (cs ! i)) \<noteq> filename (imageOf ge now b j (cs ! j))"
      using ne generated_name_inj [of b "now i" i _ "now j" j] by (auto simp: imageOf_def)
    ultimately show "map filename ?rs ! i \<noteq> map filename ?rs ! j" by simp
  qed
  with run nth show ?thesis by simp
qed

section \<open>Chunks without candidates, content or parts\<close>

text \<open>
  A chunk whose candidates are missing, or whose first candidate lacks the content or
  the parts, is skipped, and the rest of the stream is processed as if it were not there.
\<close>

lemma skipGuard_missing:
  "candidates c = None \<Longrightarrow> skipGuard c = Inr True"
  "candidates c = Some (cand # rest) \<Longrightarrow> content cand = None \<Longrightarrow> skipGuard c = Inr True"
  "candidates c = Some (cand # rest) \<Longrightarrow> content cand = Some ct \<Longrightarrow> parts ct = None
     \<Longrightarrow> skipGuard c = Inr True"
  by (simp_all add: skipGuard_def)

lemma skipped_chunk_no_effect:
  assumes "skipGuard c = Inr True"
  shows "processLoop ge now b (pre @ c # post) i acc = processLoop ge now b (pre @ post) i acc"
proof (induction pre arbitrary: i acc)
  case Nil
  from assms show ?case by simp
next
  case (Cons x pre)
  then show ?case
    by (simp split: sum.splits bool.splits option.splits)
qed

section \<open>The file extension\<close>

text \<open>
  The extension is that of \<open>image/png\<close> when the media type is absent or empty, the
  derived one when the table knows the media type, and the printed \<open>null\<close> otherwise.
\<close>

lemma fileExtension_absent:
  "\<not> truthy_str (mimeType bl) \<Longrightarrow> ge ''image/png'' = Some ''png'' \<Longrightarrow> fileExtension ge bl = ''png''"
  by (simp add: fileExtension_def or_else_def truthy_str_def split: option.splits)

lemma fileExtension_recognized:
  "mimeType bl = Some m \<Longrightarrow> m \<noteq> [] \<Longrightarrow> ge m = Some e \<Longrightarrow> fileExtension ge bl = e"
  by (simp add: fileExtension_def or_else_def)

lemma fileExtension_unrecognized:
  "mimeType bl = Some m \<Longrightarrow> m \<noteq> [] \<Longrightarrow> ge m = None \<Longrightarrow> fileExtension ge bl = ''null''"
  by (simp add: fileExtension_def or_else_def)

section \<open>The normaliser on the sample inputs\<close>

lemma digit_chars:
  "digit_char 0 = CHR ''0''" "digit_char 1 = CHR ''1''" "digit_char 2 = CHR ''2''"
  "digit_char 3 = CHR ''3''" "digit_char 4 = CHR ''4''" "digit_char 5 = CHR ''5''"
  "digit_char 6 = CHR ''6''" "digit_char 7 = CHR ''7''" "digit_char 8 = CHR ''8''"
  "digit_char 9 = CHR ''9''" "digit_char (Suc 0) = CHR ''1''"
  by code_simp+

lemma show_sample_now: "show_int (sample_now k) = ''1700000000000''"
  by (simp add: sample_now_def show_int_def show_nat_small show_nat_large digit_chars)

lemma show_nat_0: "show_nat 0 = ''0''" and show_nat_1: "show_nat (Suc 0) = ''1''"
  by (simp_all add: show_nat_small digit_chars)

text \<open>
  C1. A chunk whose candidates array is empty is not skipped: the guard reads
  \<open>candidates[0].content\<close> and \<open>processAIResponse\<close> throws a \<open>TypeError\<close>, whatever
  came before and whatever would follow. The result already pushed for the first chunk
  is lost and the chunks after it are not processed.
\<close>

theorem C1_empty_candidates_raises:
  "processAIResponse ge now
     (plainChunk (Some ''first'') # \<lparr>candidates = Some [], text_field = t\<rparr> # cs, closing) b
   = Inl (typeError_reading ''undefined'' ''content'')"
  by (simp add: processAIResponse_def plainChunk_def skipGuard_def firstInlineData_def)

text \<open>
  C3. For a media type the \<open>mime\<close> table does not know, the extension in the file
  name is not \<open>png\<close>: \<open>getExtension\<close> returns \<open>null\<close> and the template literal prints
  it, so the file name ends in \<open>.null\<close>.
\<close>

theorem C3_unrecognized_media_type:
  "processAIResponse sample_getExtension sample_now
     ([imageChunk (Some ''AAAA'') (Some ''image/x-sketch'')], None) ''text_to_image''
   = Inr [Image (Some ''AAAA'') (Some ''image/x-sketch'') ''text_to_image_1700000000000_0.null'']"
  by (simp add: processAIResponse_def imageChunk_def skipGuard_def firstInlineData_def
        fileName_def fileExtension_def or_else_def sample_getExtension_def show_nat_0 show_sample_now)

text \<open>
  C2 as stated fails: a chunk that carries the text \<open>hello\<close> but no candidates, and a
  well-formed chunk whose text is the empty string, both carry a text field and yet
  contribute no result.
\<close>

theorem C2_counterexample:
  "processAIResponse sample_getExtension sample_now
     ([\<lparr>candidates = None, text_field = Some ''hello''\<rparr>], None) ''text_to_image'' = Inr []
   \<and> processAIResponse sample_getExtension sample_now
       ([plainChunk (Some [])], None) ''text_to_image'' = Inr []"
  by (simp add: processAIResponse_def plainChunk_def skipGuard_def firstInlineData_def)

text \<open>C4 on two inline-binary chunks that arrive within the same millisecond.\<close>

theorem C4_filenames_witness:
  "inlineChunk (imageChunk (Some ''AAAA'') (Some ''image/png''))
   \<and> inlineChunk (imageChunk (Some ''BBBB'') None)
   \<and> processAIResponse sample_getExtension sample_now
        ([imageChunk (Some ''AAAA'') (Some ''image/png''), imageChunk (Some ''BBBB'') None], None)
        ''text_to_image''
      = Inr [Image (Some ''AAAA'') (Some ''image/png'') ''text_to_image_1700000000000_0.png'',
             Image (Some ''BBBB'') None ''text_to_image_1700000000000_1.png'']"
proof -
  let ?cs = "[imageChunk (Some ''AAAA'') (Some ''image/png''), imageChunk (Some ''BBBB'') None]"
  have h: "\<forall>c\<in>set ?cs. inlineChunk c"
    by (simp add: inlineChunk_def imageChunk_def firstInlineData_def)
  from C4_filenames [OF h, of sample_getExtension sample_now "''text_to_image''"]
  obtain rs where rs: "processAIResponse sample_getExtension sample_now (?cs, None) ''text_to_image'' = Inr rs"
    and len: "length rs = 2"
    and el: "\<forall>k<2. rs ! k = imageOf sample_getExtension sample_now ''text_to_image'' k (?cs ! k)"
    by auto
  from el have "rs ! 0 = imageOf sample_getExtension sample_now ''text_to_image'' 0 (?cs ! 0)"
    "rs ! 1 = imageOf sample_getExtension sample_now ''text_to_image'' 1 (?cs ! 1)"
    by simp_all
  then have "rs ! 0 = Image (Some ''AAAA'') (Some ''image/png'') ''text_to_image_1700000000000_0.png''"
    "rs ! 1 = Image (Some ''BBBB'') None ''text_to_image_1700000000000_1.png''"
    by (simp_all add: imageOf_def imageChunk_def firstInlineData_def fileExtension_def or_else_def
          sample_getExtension_def show_sample_now show_nat_0 show_nat_1)
  moreover from len obtain x y where "rs = [x, y]"
    by (cases rs; cases "tl rs") auto
  ultimately have "rs = [Image (Some ''AAAA'') (Some ''image/png'') ''text_to_image_1700000000000_0.png'',
             Image (Some ''BBBB'') None ''text_to_image_1700000000000_1.png'']"
    by simp
  with rs h show ?thesis by simp
qed

section \<open>Text-to-image requests\<close>

lemma generate_image_handler_accepted:
  assumes "generateAccepted rt ev kvs p"
  shows "generate_image_handler rt ev =
     (case rt_generateContentStream rt (generateRequest p) of
        Inl e \<Rightarrow> (case catchError netlifyKeyHint ''Failed to generate image'' e of
                   (code, obj) \<Rightarrow> (json_response code obj, [generateRequest p]))
      | Inr response \<Rightarrow>
          (case processAIResponse (rt_getExtension rt) (rt_now rt) response ''text_to_image'' of
             Inl e \<Rightarrow> (case catchError netlifyKeyHint ''Failed to generate image'' e of
                        (code, obj) \<Rightarrow> (json_response code obj, [generateRequest p]))
           | Inr results \<Rightarrow>
               if results = [] then
                 (json_response 500 (JObj [(''error'', JStr ''No content generated'')]),
                  [generateRequest p])
               else (json_response 200 (successBody p [] (map result_json results)),
                     [generateRequest p])))"
  using assms
  by (auto simp: generateAccepted_def generate_image_handler_def generate_image_try_def
           split: sum.splits)

lemma api_generate_image_accepted:
  assumes "apiGenerateAccepted rt req_body kvs p"
  shows "api_generate_image rt req_body =
     (case rt_generateContentStream rt (generateRequest p) of
        Inl e \<Rightarrow> (case catchError serverKeyHint ''Failed to generate image'' e of
                   (code, obj) \<Rightarrow> (\<lparr>res_status = code, res_json = obj\<rparr>, [generateRequest p]))
      | Inr response \<Rightarrow>
          (case serverProcessAIResponse (rt_getExtension rt) (rt_now rt) (rt_fs_write rt) response
                  ''text_to_image'' of
             Inl e \<Rightarrow> (case catchError serverKeyHint ''Failed to generate image'' e of
                        (code, obj) \<Rightarrow> (\<lparr>res_status = code, res_json = obj\<rparr>, [generateRequest p]))
           | Inr results \<Rightarrow>
               if results = [] then
                 (\<lparr>res_status = 500, res_json = JObj [(''error'', JStr ''No content generated'')]\<rparr>,
                  [generateRequest p])
               else (\<lparr>res_status = 200,
                      res_json = successBody p [] (map server_result_json results)\<rparr>,
                     [generateRequest p])))"
  using assms
  by (auto simp: apiGenerateAccepted_def api_generate_image_def api_generate_image_try_def
           split: sum.splits)

text \<open>
  C5. An empty chunk sequence gives an empty result list, and whenever a text-to-image
  request reaches the model client and \<open>processAIResponse\<close> returns the empty list,
  the handler answers with status 500 and the error \<open>No content generated\<close>, in both
  deployments.
\<close>

theorem C5_empty_results:
  "processAIResponse ge now ([], None) b = Inr []
   \<and> serverProcessAIResponse ge now w ([], None) b = Inr []
   \<and> (generateAccepted rt ev kvs p
        \<and> rt_generateContentStream rt (generateRequest p) = Inr response
        \<and> processAIResponse (rt_getExtension rt) (rt_now rt) response ''text_to_image'' = Inr []
       \<longrightarrow> fst (generate_image_handler rt ev)
             = json_response 500 (JObj [(''error'', JStr ''No content generated'')]))
   \<and> (apiGenerateAccepted rt req_body kvs' p'
        \<and> rt_generateContentStream rt (generateRequest p') = Inr response'
        \<and> serverProcessAIResponse (rt_getExtension rt) (rt_now rt) (rt_fs_write rt) response'
             ''text_to_image'' = Inr []
       \<longrightarrow> fst (api_generate_image rt req_body)
             = \<lparr>res_status = 500, res_json = JObj [(''error'', JStr ''No content generated'')]\<rparr>)"
proof (intro conjI impI)
  show "processAIResponse ge now ([], None) b = Inr []"
    by (simp add: processAIResponse_def)
  show "serverProcessAIResponse ge now w ([], None) b = Inr []"
    by (simp add: serverProcessAIResponse_def)
next
  assume "generateAccepted rt ev kvs p
        \<and> rt_generateContentStream rt (generateRequest p) = Inr response
        \<and> processAIResponse (rt_getExtension rt) (rt_now rt) response ''text_to_image'' = Inr []"
  then show "fst (generate_image_handler rt ev)
             = json_response 500 (JObj [(''error'', JStr ''No content generated'')])"
    by (simp add: generate_image_handler_accepted [of rt ev kvs p])
next
  assume "apiGenerateAccepted rt req_body kvs' p'
        \<and> rt_generateContentStream rt (generateRequest p') = Inr response'
        \<and> serverProcessAIResponse (rt_getExtension rt) (rt_now rt) (rt_fs_write rt) response'
             ''text_to_image'' = Inr []"
  then show "fst (api_generate_image rt req_body)
             = \<lparr>res_status = 500, res_json = JObj [(''error'', JStr ''No content generated'')]\<rparr>"
    by (simp add: api_generate_image_accepted [of rt req_body kvs' p'])
qed

text \<open>C2 (as amended) on two equal text chunks: both texts are kept.\<close>

theorem C2_amended_witness:
  "candidates (plainChunk (Some ''Here is'')) \<noteq> Some []
   \<and> textChunk (plainChunk (Some ''Here is''))
   \<and> processAIResponse sample_getExtension sample_now
        ([plainChunk (Some ''Here is''), plainChunk (Some ''Here is'')], None) ''text_to_image''
      = Inr [Text ''Here is'', Text ''Here is'']
   \<and> serverProcessAIResponse sample_getExtension sample_now (\<lambda>f p. None)
        ([plainChunk (Some ''Here is''), plainChunk (Some ''Here is'')], None) ''text_to_image''
      = Inr [ServerText ''Here is'', ServerText ''Here is'']"
proof -
  let ?cs = "[plainChunk (Some ''Here is''), plainChunk (Some ''Here is'')]"
  have h1: "\<forall>c\<in>set ?cs. candidates c \<noteq> Some []"
    by (simp add: plainChunk_def)
  have h2: "\<forall>c\<in>set ?cs. textChunk c"
    by (simp add: plainChunk_def textChunk_def wellFormedPath_def firstInlineData_def truthy_str_def)
  have h3: "\<forall>f p. (\<lambda>f p. None :: js_error option) (f :: string) (p :: string) = None"
    by simp
  have t: "the (text_field (plainChunk (Some ''Here is''))) = ''Here is''"
    by (simp add: plainChunk_def)
  from C2_amended [OF h1, where ge = sample_getExtension and now = sample_now
      and b = "''text_to_image''" and w = "\<lambda>f p. None"] h2 h3 t
  have "processAIResponse sample_getExtension sample_now (?cs, None) ''text_to_image''
      = Inr [Text ''Here is'', Text ''Here is'']"
    and "serverProcessAIResponse sample_getExtension sample_now (\<lambda>f p. None) (?cs, None) ''text_to_image''
      = Inr [ServerText ''Here is'', ServerText ''Here is'']"
    by auto
  with h1 h2 show ?thesis by simp
qed

text \<open>C5 on a model client that sends an empty stream.\<close>

theorem C5_empty_results_witness:
  "generateAccepted (sample_runtime (Some ''key'') (\<lambda>r. Inr ([], None))) (sample_event sample_body)
     [(''prompt'', JStr ''a red circle'')] (JStr ''a red circle'')
   \<and> apiGenerateAccepted (sample_runtime (Some ''key'') (\<lambda>r. Inr ([], None)))
       (Some (JObj [(''prompt'', JStr ''a red circle'')]))
       [(''prompt'', JStr ''a red circle'')] (JStr ''a red circle'')
   \<and> fst (generate_image_handler (sample_runtime (Some ''key'') (\<lambda>r. Inr ([], None)))
            (sample_event sample_body))
      = json_response 500 (JObj [(''error'', JStr ''No content generated'')])
   \<and> fst (api_generate_image (sample_runtime (Some ''key'') (\<lambda>r. Inr ([], None)))
            (Some (JObj [(''prompt'', JStr ''a red circle'')])))
      = \<lparr>res_status = 500, res_json = JObj [(''error'', JStr ''No content generated'')]\<rparr>"
proof -
  let ?rt = "sample_runtime (Some ''key'') (\<lambda>r. Inr ([], None))"
  let ?kvs = "[(''prompt'', JStr ''a red circle'')]"
  have a: "generateAccepted ?rt (sample_event sample_body) ?kvs (JStr ''a red circle'')"
    by (simp add: generateAccepted_def sample_runtime_def sample_event_def sample_JSON_parse_def
          truthy_str_def)
  have b: "apiGenerateAccepted ?rt (Some (JObj ?kvs)) ?kvs (JStr ''a red circle'')"
    by (simp add: apiGenerateAccepted_def sample_runtime_def truthy_str_def)
  have u: "rt_generateContentStream ?rt (generateRequest (JStr ''a red circle'')) = Inr ([], None)"
    by (simp add: sample_runtime_def)
  have e1: "processAIResponse (rt_getExtension ?rt) (rt_now ?rt) ([], None) ''text_to_image'' = Inr []"
    by (simp add: processAIResponse_def)
  have e2: "serverProcessAIResponse (rt_getExtension ?rt) (rt_now ?rt) (rt_fs_write ?rt) ([], None)
              ''text_to_image'' = Inr []"
    by (simp add: serverProcessAIResponse_def)
  from C5_empty_results [where rt = ?rt and ev = "sample_event sample_body" and kvs = ?kvs
      and p = "JStr ''a red circle''" and response = "([], None)"
      and req_body = "Some (JObj ?kvs)" and kvs' = ?kvs and p' = "JStr ''a red circle''"
      and response' = "([], None)"] a b u e1 e2
  show ?thesis by blast
qed

lemma processAIResponse_stream_error:
  assumes "list_all (\<lambda>c. candidates c \<noteq> Some []) cs"
  shows "processAIResponse ge now (cs, Some e) b = Inl e"
proof -
  from assms have "\<forall>c\<in>set cs. candidates c \<noteq> Some []"
    by (simp add: list_all_iff)
  from processLoop_kinds [OF this, where ge = ge and now = now and b = b and i = 0 and acc = "[]"]
  obtain rs where "processLoop ge now b cs 0 [] = Inr rs" by auto
  then show ?thesis by (simp add: processAIResponse_def)
qed

lemma serverProcessAIResponse_stream_error:
  assumes "list_all (\<lambda>c. candidates c \<noteq> Some []) cs" and w: "\<forall>f p. w f p = None"
  shows "serverProcessAIResponse ge now w (cs, Some e) b = Inl e"
proof -
  from assms have "\<forall>c\<in>set cs. candidates c \<noteq> Some []"
    by (simp add: list_all_iff)
  from serverProcessLoop_kinds [OF this w, where ge = ge and now = now and b = b and i = 0 and acc = "[]"]
  obtain rs where "serverProcessLoop ge now w b cs 0 [] = Inr rs" by auto
  then show ?thesis by (simp add: serverProcessAIResponse_def)
qed

lemma generate_image_handler_failure:
  assumes acc: "generateAccepted rt ev kvs p" and fails: "upstreamFails rt (generateRequest p) e"
  shows "generate_image_handler rt ev =
           (json_response (fst (catchError netlifyKeyHint ''Failed to generate image'' e))
              (snd (catchError netlifyKeyHint ''Failed to generate image'' e)),
            [generateRequest p])"
proof (cases "rt_generateContentStream rt (generateRequest p)")
  case (Inl e')
  with fails have "e' = e" by (simp add: upstreamFails_def)
  with Inl show ?thesis
    by (simp add: generate_image_handler_accepted [OF acc] split: prod.splits)
next
  case (Inr response)
  obtain cs closing where r: "response = (cs, closing)" by (cases response)
  with Inr fails have "closing = Some e" "list_all (\<lambda>c. candidates c \<noteq> Some []) cs"
    by (simp_all add: upstreamFails_def)
  with r have "processAIResponse (rt_getExtension rt) (rt_now rt) response ''text_to_image'' = Inl e"
    by (simp add: processAIResponse_stream_error)
  with Inr show ?thesis
    by (simp add: generate_image_handler_accepted [OF acc] split: prod.splits)
qed

lemma api_generate_image_failure:
  assumes acc: "apiGenerateAccepted rt req_body kvs p" and fails: "upstreamFails rt (generateRequest p) e"
    and w: "\<forall>f d. rt_fs_write rt f d = None"
  shows "api_generate_image rt req_body =
           (\<lparr>res_status = fst (catchError serverKeyHint ''Failed to generate image'' e),
             res_json = snd (catchError serverKeyHint ''Failed to generate image'' e)\<rparr>,
            [generateRequest p])"
proof (cases "rt_generateContentStream rt (generateRequest p)")
  case (Inl e')
  with fails have "e' = e" by (simp add: upstreamFails_def)
  with Inl show ?thesis
    by (simp add: api_generate_image_accepted [OF acc] split: prod.splits)
next
  case (Inr response)
  obtain cs closing where r: "response = (cs, closing)" by (cases response)
  with Inr fails have "closing = Some e" "list_all (\<lambda>c. candidates c \<noteq> Some []) cs"
    by (simp_all add: upstreamFails_def)
  with r w have "serverProcessAIResponse (rt_getExtension rt) (rt_now rt) (rt_fs_write rt) response
       ''text_to_image'' = Inl e"
    by (simp add: serverProcessAIResponse_stream_error)
  with Inr show ?thesis
    by (simp add: api_generate_image_accepted [OF acc] split: prod.splits)
qed

lemma catchError_status: "fst (catchError hint failure e) = statusFor e"
  by (simp add: catchError_def statusFor_def)

lemma catchError_429:
  "status e = Some 429 \<Longrightarrow> json_get (snd (catchError hint failure e)) ''details''
     = Some (JStr ''You have exceeded the API rate limit. Please wait a few minutes and try again.'')"
  by (simp add: catchError_def)

lemma catchError_400:
  "status e = Some 400 \<Longrightarrow> message e = Some m \<Longrightarrow> m \<noteq> [] \<Longrightarrow>
     json_get (snd (catchError hint failure e)) ''details'' = Some (JStr m)"
  by (simp add: catchError_def or_else_def)

text \<open>
  C6. When the model client fails with \<open>e\<close> on a text-to-image request that passed the
  checks, the handler answers with the status 429, 401 or 400 that \<open>e\<close> reports, and
  with 500 for any other failure; the 429 answer carries the hint to wait and try
  again, the 400 answer passes on the message of \<open>e\<close> when it has one. The model
  client has been called exactly once, so nothing is retried, and the failure ends in
  a response. This holds in both deployments (on the server when no file write fails
  before the stream does).
\<close>

theorem C6_upstream_failure:
  assumes "upstreamFails rt (generateRequest p) e"
  shows "(generateAccepted rt ev kvs p \<longrightarrow>
            statusCode (fst (generate_image_handler rt ev)) = statusFor e
          \<and> snd (generate_image_handler rt ev) = [generateRequest p]
          \<and> (status e = Some 429 \<longrightarrow>
               Option.bind (body (fst (generate_image_handler rt ev))) (\<lambda>j. json_get j ''details'')
               = Some (JStr ''You have exceeded the API rate limit. Please wait a few minutes and try again.''))
          \<and> (\<forall>m. status e = Some 400 \<and> message e = Some m \<and> m \<noteq> [] \<longrightarrow>
               Option.bind (body (fst (generate_image_handler rt ev))) (\<lambda>j. json_get j ''details'')
               = Some (JStr m)))
       \<and> (apiGenerateAccepted rt req_body kvs' p \<and> (\<forall>f d. rt_fs_write rt f d = None) \<longrightarrow>
            res_status (fst (api_generate_image rt req_body)) = statusFor e
          \<and> snd (api_generate_image rt req_body) = [generateRequest p]
          \<and> (status e = Some 429 \<longrightarrow>
               json_get (res_json (fst (api_generate_image rt req_body))) ''details''
               = Some (JStr ''You have exceeded the API rate limit. Please wait a few minutes and try again.''))
          \<and> (\<forall>m. status e = Some 400 \<and> message e = Some m \<and> m \<noteq> [] \<longrightarrow>
               json_get (res_json (fst (api_generate_image rt req_body))) ''details''
               = Some (JStr m)))"
proof (intro conjI impI)
  assume acc: "generateAccepted rt ev kvs p"
  note h = generate_image_handler_failure [OF acc assms]
  show "statusCode (fst (generate_image_handler rt ev)) = statusFor e"
    by (simp add: h json_response_def catchError_status)
  show "snd (generate_image_handler rt ev) = [generateRequest p]"
    by (simp add: h)
  show "Option.bind (body (fst (generate_image_handler rt ev))) (\<lambda>j. json_get j ''details'')
        = Some (JStr ''You have exceeded the API rate limit. Please wait a few minutes and try again.'')"
    if "status e = Some 429"
    using that by (simp add: h json_response_def catchError_429)
  show "\<forall>m. status e = Some 400 \<and> message e = Some m \<and> m \<noteq> [] \<longrightarrow>
          Option.bind (body (fst (generate_image_handler rt ev))) (\<lambda>j. json_get j ''details'')
          = Some (JStr m)"
    by (simp add: h json_response_def catchError_400)
next
  assume "apiGenerateAccepted rt req_body kvs' p \<and> (\<forall>f d. rt_fs_write rt f d = None)"
  then have acc: "apiGenerateAccepted rt req_body kvs' p" and w: "\<forall>f d. rt_fs_write rt f d = None"
    by simp_all
  note h = api_generate_image_failure [OF acc assms w]
  show "res_status (fst (api_generate_image rt req_body)) = statusFor e"
    by (simp add: h catchError_status)
  show "snd (api_generate_image rt req_body) = [generateRequest p]"
    by (simp add: h)
  show "json_get (res_json (fst (api_generate_image rt req_body))) ''details''
        = Some (JStr ''You have exceeded the API rate limit. Please wait a few minutes and try again.'')"
    if "status e = Some 429"
    using that by (simp add: h catchError_429)
  show "\<forall>m. status e = Some 400 \<and> message e = Some m \<and> m \<noteq> [] \<longrightarrow>
          json_get (res_json (fst (api_generate_image rt req_body))) ''details'' = Some (JStr m)"
    by (simp add: h catchError_400)
qed

text \<open>C6 on a model client that reports status 429.\<close>

theorem C6_upstream_failure_witness:
  "upstreamFails (sample_runtime (Some ''key'') (\<lambda>r. Inl rateLimited))
     (generateRequest (JStr ''a red circle'')) rateLimited
   \<and> generateAccepted (sample_runtime (Some ''key'') (\<lambda>r. Inl rateLimited)) (sample_event sample_body)
       [(''prompt'', JStr ''a red circle'')] (JStr ''a red circle'')
   \<and> apiGenerateAccepted (sample_runtime (Some ''key'') (\<lambda>r. Inl rateLimited))
       (Some (JObj [(''prompt'', JStr ''a red circle'')]))
       [(''prompt'', JStr ''a red circle'')] (JStr ''a red circle'')
   \<and> (\<forall>f d. rt_fs_write (sample_runtime (Some ''key'') (\<lambda>r. Inl rateLimited)) f d = None)
   \<and> status rateLimited = Some 429
   \<and> statusCode (fst (generate_image_handler (sample_runtime (Some ''key'') (\<lambda>r. Inl rateLimited))
         (sample_event sample_body))) = 429
   \<and> snd (generate_image_handler (sample_runtime (Some ''key'') (\<lambda>r. Inl rateLimited))
         (sample_event sample_body)) = [generateRequest (JStr ''a red circle'')]
   \<and> res_status (fst (api_generate_image (sample_runtime (Some ''key'') (\<lambda>r. Inl rateLimited))
         (Some (JObj [(''prompt'', JStr ''a red circle'')])))) = 429
   \<and> snd (api_generate_image (sample_runtime (Some ''key'') (\<lambda>r. Inl rateLimited))
         (Some (JObj [(''prompt'', JStr ''a red circle'')]))) = [generateRequest (JStr ''a red circle'')]"
proof -
  let ?rt = "sample_runtime (Some ''key'') (\<lambda>r. Inl rateLimited)"
  let ?kvs = "[(''prompt'', JStr ''a red circle'')]"
  have f: "upstreamFails ?rt (generateRequest (JStr ''a red circle'')) rateLimited"
    by (simp add: upstreamFails_def sample_runtime_def)
  have a: "generateAccepted ?rt (sample_event sample_body) ?kvs (JStr ''a red circle'')"
    by (simp add: generateAccepted_def sample_runtime_def sample_event_def sample_JSON_parse_def
          truthy_str_def)
  have b: "apiGenerateAccepted ?rt (Some (JObj ?kvs)) ?kvs (JStr ''a red circle'')"
    by (simp add: apiGenerateAccepted_def sample_runtime_def truthy_str_def)
  have w: "\<forall>f d. rt_fs_write ?rt f d = None"
    by (simp add: sample_runtime_def)
  have s: "status rateLimited = Some 429" "statusFor rateLimited = 429"
    by (simp_all add: rateLimited_def statusFor_def)
  from C6_upstream_failure [OF f, where ev = "sample_event sample_body" and kvs = ?kvs
      and req_body = "Some (JObj ?kvs)" and kvs' = ?kvs] a b w s f
  show ?thesis by simp
qed

text \<open>
  C7. A POST whose body is an object without \<open>prompt\<close> is answered with status 400,
  and one with a prompt while \<open>GEMINI_API_KEY\<close> is unset or empty with status 500; in
  both cases no request has been sent to the model client. This holds in both
  deployments.
\<close>

theorem C7_rejected_before_upstream:
  "(httpMethod ev = ''POST'' \<and> rt_JSON_parse rt (ev_body ev) = Inr (JObj kvs)
      \<and> map_of kvs ''prompt'' = None
     \<longrightarrow> generate_image_handler rt ev
           = (json_response 400 (JObj [(''error'', JStr ''Prompt is required'')]), []))
   \<and> (httpMethod ev = ''POST'' \<and> rt_JSON_parse rt (ev_body ev) = Inr (JObj kvs)
      \<and> map_of kvs ''prompt'' = Some p \<and> json_truthy p \<and> \<not> truthy_str (rt_apiKey rt)
     \<longrightarrow> generate_image_handler rt ev
           = (json_response 500 (JObj [(''error'', JStr ''GEMINI_API_KEY not configured'')]), []))
   \<and> (req_body = Some (JObj kvs) \<and> map_of kvs ''prompt'' = None
     \<longrightarrow> api_generate_image rt req_body
           = (\<lparr>res_status = 400, res_json = JObj [(''error'', JStr ''Prompt is required'')]\<rparr>, []))
   \<and> (req_body = Some (JObj kvs) \<and> map_of kvs ''prompt'' = Some p \<and> json_truthy p
      \<and> \<not> truthy_str (rt_apiKey rt)
     \<longrightarrow> api_generate_image rt req_body
           = (\<lparr>res_status = 500,
               res_json = JObj [(''error'', JStr ''GEMINI_API_KEY not configured'')]\<rparr>, []))"
  by (simp add: generate_image_handler_def generate_image_try_def api_generate_image_def
        api_generate_image_try_def)

text \<open>C7 on the body \<open>{}\<close> and on a runtime without the credential.\<close>

theorem C7_rejected_before_upstream_witness:
  "generate_image_handler (sample_runtime (Some ''key'') (\<lambda>r. Inl rateLimited)) (sample_event ''{}'')
     = (json_response 400 (JObj [(''error'', JStr ''Prompt is required'')]), [])
   \<and> generate_image_handler (sample_runtime None (\<lambda>r. Inl rateLimited)) (sample_event sample_body)
     = (json_response 500 (JObj [(''error'', JStr ''GEMINI_API_KEY not configured'')]), [])
   \<and> api_generate_image (sample_runtime (Some ''key'') (\<lambda>r. Inl rateLimited)) (Some (JObj []))
     = (\<lparr>res_status = 400, res_json = JObj [(''error'', JStr ''Prompt is required'')]\<rparr>, [])
   \<and> api_generate_image (sample_runtime None (\<lambda>r. Inl rateLimited))
       (Some (JObj [(''prompt'', JStr ''a red circle'')]))
     = (\<lparr>res_status = 500, res_json = JObj [(''error'', JStr ''GEMINI_API_KEY not configured'')]\<rparr>, [])"
proof -
  let ?up = "\<lambda>r :: gen_request. Inl rateLimited :: js_error + stream"
  have p0: "httpMethod (sample_event ''{}'') = ''POST''"
      "rt_JSON_parse (sample_runtime (Some ''key'') ?up) (ev_body (sample_event ''{}'')) = Inr (JObj [])"
      "map_of ([] :: (string \<times> json) list) ''prompt'' = None"
    by (simp_all add: sample_event_def sample_runtime_def sample_JSON_parse_def sample_body_def)
  have p1: "httpMethod (sample_event sample_body) = ''POST''"
      "rt_JSON_parse (sample_runtime None ?up) (ev_body (sample_event sample_body))
         = Inr (JObj [(''prompt'', JStr ''a red circle'')])"
      "map_of [(''prompt'', JStr ''a red circle'')] ''prompt'' = Some (JStr ''a red circle'')"
      "json_truthy (JStr ''a red circle'')"
      "\<not> truthy_str (rt_apiKey (sample_runtime None ?up))"
    by (simp_all add: sample_event_def sample_runtime_def sample_JSON_parse_def truthy_str_def)
  have k: "rt_apiKey (sample_runtime (Some ''key'') ?up) = Some ''key''"
    by (simp add: sample_runtime_def)
  from C7_rejected_before_upstream [where rt = "sample_runtime (Some ''key'') ?up"
      and ev = "sample_event ''{}''" and kvs = "[]" and req_body = "Some (JObj [])"] p0
  have a: "generate_image_handler (sample_runtime (Some ''key'') ?up) (sample_event ''{}'')
     = (json_response 400 (JObj [(''error'', JStr ''Prompt is required'')]), [])"
    and c: "api_generate_image (sample_runtime (Some ''key'') ?up) (Some (JObj []))
     = (\<lparr>res_status = 400, res_json = JObj [(''error'', JStr ''Prompt is required'')]\<rparr>, [])"
    by simp_all
  from C7_rejected_before_upstream [where rt = "sample_runtime None ?up"
      and ev = "sample_event sample_body" and kvs = "[(''prompt'', JStr ''a red circle'')]"
      and p = "JStr ''a red circle''"
      and req_body = "Some (JObj [(''prompt'', JStr ''a red circle'')])"] p1
  have b: "generate_image_handler (sample_runtime None ?up) (sample_event sample_body)
     = (json_response 500 (JObj [(''error'', JStr ''GEMINI_API_KEY not configured'')]), [])"
    and d: "api_generate_image (sample_runtime None ?up)
       (Some (JObj [(''prompt'', JStr ''a red circle'')]))
     = (\<lparr>res_status = 500, res_json = JObj [(''error'', JStr ''GEMINI_API_KEY not configured'')]\<rparr>, [])"
    by simp_all
  from a b c d show ?thesis by simp
qed

section \<open>Image manipulation\<close>

lemma sample_prompt_only:
  "parseMultipartFormData (\<lambda>s. s) sample_form_prompt_only ''XYZ''
     = \<lparr>fd_fields = [(''prompt'', ''make it blue'')], fd_image = None\<rparr>"
  by code_simp

lemma sample_prompt_and_image:
  "parseMultipartFormData (\<lambda>s. s) sample_form_with_image ''XYZ''
     = \<lparr>fd_fields = [(''prompt'', ''make it blue'')],
        fd_image = Some \<lparr>img_data = ''PNGDATA'', img_mimeType = ''image/png''\<rparr>\<rparr>"
  by code_simp

lemma sample_content_type:
  "includes_str ''multipart/form-data; boundary=XYZ'' ''multipart/form-data''"
  "boundaryOf ''multipart/form-data; boundary=XYZ'' = Some ''XYZ''"
  by code_simp+

lemma manipulate_image_handler_parsed:
  assumes "manipulateParsed rt ev contentType boundary raw formData"
  shows "manipulate_image_handler rt ev =
     (case manipulate_form rt formData of
        (Inr r, sent) \<Rightarrow> (r, sent)
      | (Inl e, sent) \<Rightarrow>
          (case catchError netlifyKeyHint ''Failed to manipulate image'' e of
             (code, obj) \<Rightarrow> (json_response code obj, sent)))"
  using assms
  by (simp add: manipulateParsed_def manipulate_image_handler_def manipulate_image_try_def
        truthy_str_def)

text \<open>
  C9. An image-manipulation request whose form has a non-empty prompt and no image is
  answered with status 400 and the body \<open>{error: "Image file is required"}\<close>, and no
  request has been sent to the model client; in both deployments.
\<close>

theorem C9_image_required:
  "(manipulateParsed rt ev contentType boundary raw formData
      \<and> map_of (fd_fields formData) ''prompt'' = Some p \<and> p \<noteq> [] \<and> fd_image formData = None
     \<longrightarrow> manipulate_image_handler rt ev
           = (json_response 400 (JObj [(''error'', JStr ''Image file is required'')]), []))
   \<and> (mreq_body req = Some textFields \<and> map_of textFields ''prompt'' = Some p' \<and> p' \<noteq> []
      \<and> mreq_file req = None
     \<longrightarrow> api_manipulate_image rt req
           = (\<lparr>res_status = 400, res_json = JObj [(''error'', JStr ''Image file is required'')]\<rparr>,
              []))"
proof (intro conjI impI)
  assume "manipulateParsed rt ev contentType boundary raw formData
      \<and> map_of (fd_fields formData) ''prompt'' = Some p \<and> p \<noteq> [] \<and> fd_image formData = None"
  then show "manipulate_image_handler rt ev
           = (json_response 400 (JObj [(''error'', JStr ''Image file is required'')]), [])"
    by (simp add: manipulate_image_handler_parsed [of rt ev contentType boundary raw formData]
          manipulate_form_def truthy_str_def)
next
  assume "mreq_body req = Some textFields \<and> map_of textFields ''prompt'' = Some p' \<and> p' \<noteq> []
      \<and> mreq_file req = None"
  then show "api_manipulate_image rt req
           = (\<lparr>res_status = 400, res_json = JObj [(''error'', JStr ''Image file is required'')]\<rparr>,
              [])"
    by (simp add: api_manipulate_image_def api_manipulate_image_try_def truthy_str_def)
qed

lemma sample_form_parsed:
  "manipulateParsed (sample_runtime key up) (sample_form_event raw)
     ''multipart/form-data; boundary=XYZ'' ''XYZ'' raw (parseMultipartFormData (\<lambda>s. s) raw ''XYZ'')"
  by (simp add: manipulateParsed_def sample_form_event_def sample_runtime_def contentTypeHeader_def
        truthy_str_def sample_content_type)

text \<open>C9 on a multipart body that holds the prompt part only.\<close>

theorem C9_image_required_witness:
  "manipulate_image_handler (sample_runtime (Some ''key'') (\<lambda>r. Inl rateLimited))
     (sample_form_event sample_form_prompt_only)
     = (json_response 400 (JObj [(''error'', JStr ''Image file is required'')]), [])
   \<and> api_manipulate_image (sample_runtime (Some ''key'') (\<lambda>r. Inl rateLimited))
       \<lparr>mreq_body = Some [(''prompt'', ''make it blue'')], mreq_file = None\<rparr>
     = (\<lparr>res_status = 400, res_json = JObj [(''error'', JStr ''Image file is required'')]\<rparr>, [])"
proof -
  let ?rt = "sample_runtime (Some ''key'') (\<lambda>r. Inl rateLimited)"
  let ?raw = "sample_form_prompt_only"
  let ?fd = "\<lparr>fd_fields = [(''prompt'', ''make it blue'')], fd_image = None\<rparr>"
  let ?req = "\<lparr>mreq_body = Some [(''prompt'', ''make it blue'')], mreq_file = None\<rparr>"
  have a: "manipulateParsed ?rt (sample_form_event ?raw) ''multipart/form-data; boundary=XYZ''
             ''XYZ'' ?raw ?fd"
    using sample_form_parsed [of "Some ''key''" "\<lambda>r. Inl rateLimited" ?raw]
    by (simp only: sample_prompt_only)
  have b: "map_of (fd_fields ?fd) ''prompt'' = Some ''make it blue''" "''make it blue'' \<noteq> []"
    "fd_image ?fd = None"
    by simp_all
  have c: "mreq_body ?req = Some [(''prompt'', ''make it blue'')]"
    "map_of [(''prompt'', ''make it blue'')] ''prompt'' = Some ''make it blue''"
    "mreq_file ?req = None"
    by simp_all
  from C9_image_required [where rt = ?rt and ev = "sample_form_event ?raw"
      and contentType = "''multipart/form-data; boundary=XYZ''" and boundary = "''XYZ''"
      and raw = ?raw and formData = ?fd and p = "''make it blue''" and req = ?req
      and textFields = "[(''prompt'', ''make it blue'')]" and p' = "''make it blue''"] a b c
  show ?thesis by blast
qed

lemma manipulateRequest_basedOnImage: "manipulateRequest p mime payload = basedOnImage p mime payload"
  by (simp add: manipulateRequest_def basedOnImage_def modelId_def)

lemma catchError_not_200: "catchError hint failure e = (200, obj) \<Longrightarrow> False"
  by (simp add: catchError_def split: if_splits)

text \<open>
  C10. An image-manipulation request with prompt \<open>p\<close>, an image and the credential
  sends the model client one request, whose text part is
  \<open>Based on the uploaded image, \<close> followed by \<open>p\<close> and so differs from \<open>p\<close>; when
  the answer is a success, its \<open>prompt\<close> is \<open>p\<close> itself. This holds in both deployments.
\<close>

theorem C10_prompt_prefix:
  "(manipulateParsed rt ev contentType boundary raw formData
      \<and> map_of (fd_fields formData) ''prompt'' = Some p \<and> p \<noteq> []
      \<and> fd_image formData = Some imageFile \<and> truthy_str (rt_apiKey rt)
     \<longrightarrow> snd (manipulate_image_handler rt ev)
           = [basedOnImage p (img_mimeType imageFile) (img_data imageFile)]
         \<and> (statusCode (fst (manipulate_image_handler rt ev)) = 200
             \<longrightarrow> Option.bind (body (fst (manipulate_image_handler rt ev))) (\<lambda>j. json_get j ''prompt'')
                 = Some (JStr p)))
   \<and> (mreq_body req = Some textFields \<and> map_of textFields ''prompt'' = Some p' \<and> p' \<noteq> []
      \<and> mreq_file req = Some upl \<and> truthy_str (rt_apiKey rt)
     \<longrightarrow> snd (api_manipulate_image rt req)
           = [basedOnImage p' (mimetype upl) (rt_base64 rt (buffer upl))]
         \<and> (res_status (fst (api_manipulate_image rt req)) = 200
             \<longrightarrow> json_get (res_json (fst (api_manipulate_image rt req))) ''prompt'' = Some (JStr p')))
   \<and> TextPart (JStr (''Based on the uploaded image, '' @ q)) \<noteq> TextPart (JStr q)"
proof (intro conjI impI)
  assume h: "manipulateParsed rt ev contentType boundary raw formData
      \<and> map_of (fd_fields formData) ''prompt'' = Some p \<and> p \<noteq> []
      \<and> fd_image formData = Some imageFile \<and> truthy_str (rt_apiKey rt)"
  then have parsed: "manipulateParsed rt ev contentType boundary raw formData" by simp
  note unfold = manipulate_image_handler_parsed [OF parsed] manipulate_form_def truthy_str_def
    manipulateRequest_basedOnImage json_response_def successBody_def Let_def
  from h show "snd (manipulate_image_handler rt ev)
           = [basedOnImage p (img_mimeType imageFile) (img_data imageFile)]"
    by (simp add: unfold split: sum.splits prod.splits)
  assume "statusCode (fst (manipulate_image_handler rt ev)) = 200"
  with h show "Option.bind (body (fst (manipulate_image_handler rt ev))) (\<lambda>j. json_get j ''prompt'')
                 = Some (JStr p)"
    by (auto simp: unfold split: sum.splits prod.splits if_splits dest: catchError_not_200)
next
  assume h: "mreq_body req = Some textFields \<and> map_of textFields ''prompt'' = Some p' \<and> p' \<noteq> []
      \<and> mreq_file req = Some upl \<and> truthy_str (rt_apiKey rt)"
  note unfold = api_manipulate_image_def api_manipulate_image_try_def truthy_str_def
    manipulateRequest_basedOnImage successBody_def Let_def
  from h show "snd (api_manipulate_image rt req)
           = [basedOnImage p' (mimetype upl) (rt_base64 rt (buffer upl))]"
    by (simp add: unfold split: sum.splits prod.splits)
  assume "res_status (fst (api_manipulate_image rt req)) = 200"
  with h show "json_get (res_json (fst (api_manipulate_image rt req))) ''prompt'' = Some (JStr p')"
    by (auto simp: unfold split: sum.splits prod.splits if_splits dest: catchError_not_200)
next
  show "TextPart (JStr (''Based on the uploaded image, '' @ q)) \<noteq> TextPart (JStr q)"
    by simp
qed

lemma sample_stream_results:
  "processAIResponse sample_getExtension sample_now sample_stream b
     = Inr [Image (Some ''AAAA'') (Some ''image/png'') (b @ ''_1700000000000_0.png''), Text ''done'']"
  by (simp add: processAIResponse_def sample_stream_def imageChunk_def plainChunk_def skipGuard_def
        firstInlineData_def fileName_def fileExtension_def or_else_def sample_getExtension_def
        show_nat_0 show_sample_now)

lemma sample_stream_server_results:
  "serverProcessAIResponse sample_getExtension sample_now (\<lambda>f p. None) sample_stream b
     = Inr [ServerImage (''/generated/'' @ b @ ''_1700000000000_0.png'') (Some ''image/png''),
            ServerText ''done'']"
  by (simp add: serverProcessAIResponse_def sample_stream_def imageChunk_def plainChunk_def
        skipGuard_def firstInlineData_def fileName_def fileExtension_def or_else_def
        sample_getExtension_def saveBinaryFile_def show_nat_0 show_sample_now)

text \<open>C10 on a multipart body with the prompt \<open>make it blue\<close> and a PNG file.\<close>

theorem C10_prompt_prefix_witness:
  "snd (manipulate_image_handler (sample_runtime (Some ''key'') (\<lambda>r. Inr sample_stream))
          (sample_form_event sample_form_with_image))
     = [basedOnImage ''make it blue'' ''image/png'' ''PNGDATA'']
   \<and> statusCode (fst (manipulate_image_handler (sample_runtime (Some ''key'') (\<lambda>r. Inr sample_stream))
          (sample_form_event sample_form_with_image))) = 200
   \<and> Option.bind (body (fst (manipulate_image_handler
          (sample_runtime (Some ''key'') (\<lambda>r. Inr sample_stream))
          (sample_form_event sample_form_with_image))))
        (\<lambda>j. json_get j ''prompt'') = Some (JStr ''make it blue'')
   \<and> snd (api_manipulate_image (sample_runtime (Some ''key'') (\<lambda>r. Inr sample_stream))
          \<lparr>mreq_body = Some [(''prompt'', ''make it blue'')], mreq_file = Some sample_upload\<rparr>)
     = [basedOnImage ''make it blue'' ''image/png'' ''PNGDATA'']
   \<and> res_status (fst (api_manipulate_image (sample_runtime (Some ''key'') (\<lambda>r. Inr sample_stream))
          \<lparr>mreq_body = Some [(''prompt'', ''make it blue'')], mreq_file = Some sample_upload\<rparr>)) = 200
   \<and> json_get (res_json (fst (api_manipulate_image
          (sample_runtime (Some ''key'') (\<lambda>r. Inr sample_stream))
          \<lparr>mreq_body = Some [(''prompt'', ''make it blue'')], mreq_file = Some sample_upload\<rparr>)))
        ''prompt'' = Some (JStr ''make it blue'')"
proof -
  let ?rt = "sample_runtime (Some ''key'') (\<lambda>r. Inr sample_stream)"
  let ?raw = "sample_form_with_image"
  let ?img = "\<lparr>img_data = ''PNGDATA'', img_mimeType = ''image/png''\<rparr>"
  let ?fd = "\<lparr>fd_fields = [(''prompt'', ''make it blue'')], fd_image = Some ?img\<rparr>"
  let ?req = "\<lparr>mreq_body = Some [(''prompt'', ''make it blue'')], mreq_file = Some sample_upload\<rparr>"
  have a: "manipulateParsed ?rt (sample_form_event ?raw) ''multipart/form-data; boundary=XYZ''
             ''XYZ'' ?raw ?fd"
    using sample_form_parsed [of "Some ''key''" "\<lambda>r. Inr sample_stream" ?raw]
    by (simp only: sample_prompt_and_image)
  have b: "map_of (fd_fields ?fd) ''prompt'' = Some ''make it blue''" "''make it blue'' \<noteq> []"
    "fd_image ?fd = Some ?img" "truthy_str (rt_apiKey ?rt)"
    by (simp_all add: sample_runtime_def truthy_str_def)
  have c: "mreq_body ?req = Some [(''prompt'', ''make it blue'')]"
    "map_of [(''prompt'', ''make it blue'')] ''prompt'' = Some ''make it blue''"
    "mreq_file ?req = Some sample_upload"
    by simp_all
  have u: "rt_generateContentStream ?rt = (\<lambda>r. Inr sample_stream)"
    "rt_getExtension ?rt = sample_getExtension" "rt_now ?rt = sample_now"
    "rt_fs_write ?rt = (\<lambda>f p. None)" "rt_base64 ?rt = (\<lambda>s. s)" "rt_apiKey ?rt = Some ''key''"
    by (simp_all add: sample_runtime_def)
  have s1: "statusCode (fst (manipulate_image_handler ?rt (sample_form_event ?raw))) = 200"
    by (simp add: manipulate_image_handler_parsed [OF a] manipulate_form_def truthy_str_def u
          sample_stream_results json_response_def)
  have s2: "res_status (fst (api_manipulate_image ?rt ?req)) = 200"
    by (simp add: api_manipulate_image_def api_manipulate_image_try_def truthy_str_def u
          sample_stream_server_results)
  have v: "img_mimeType ?img = ''image/png''" "img_data ?img = ''PNGDATA''"
    "mimetype sample_upload = ''image/png''" "rt_base64 ?rt (buffer sample_upload) = ''PNGDATA''"
    by (simp_all add: sample_upload_def u)
  from C10_prompt_prefix [where rt = ?rt and ev = "sample_form_event ?raw"
      and contentType = "''multipart/form-data; boundary=XYZ''" and boundary = "''XYZ''"
      and raw = ?raw and formData = ?fd and p = "''make it blue''" and imageFile = ?img
      and req = ?req and textFields = "[(''prompt'', ''make it blue'')]" and p' = "''make it blue''"
      and upl = sample_upload] a b c s1 s2
  show ?thesis by (simp only: v) blast
qed

section \<open>Success bodies\<close>

lemma generate_image_handler_200:
  assumes "statusCode (fst (generate_image_handler rt ev)) = 200" and "httpMethod ev \<noteq> ''OPTIONS''"
  shows "\<exists>p rs. rs \<noteq> [] \<and> body (fst (generate_image_handler rt ev))
           = Some (JObj [(''success'', JBool True), (''prompt'', p),
                         (''results'', JArr (map result_json rs))])"
  using assms
  by (auto simp: generate_image_handler_def generate_image_try_def json_response_def successBody_def
           split: sum.splits option.splits if_splits prod.splits dest: catchError_not_200)

lemma api_generate_image_200:
  assumes "res_status (fst (api_generate_image rt req_body)) = 200"
  shows "\<exists>p rs. rs \<noteq> [] \<and> res_json (fst (api_generate_image rt req_body))
           = JObj [(''success'', JBool True), (''prompt'', p),
                   (''results'', JArr (map server_result_json rs))]"
  using assms
  by (auto simp: api_generate_image_def api_generate_image_try_def successBody_def
           split: sum.splits option.splits if_splits prod.splits dest: catchError_not_200)

lemma manipulate_image_handler_200:
  assumes "statusCode (fst (manipulate_image_handler rt ev)) = 200" and "httpMethod ev \<noteq> ''OPTIONS''"
  shows "\<exists>p m rs. rs \<noteq> [] \<and> body (fst (manipulate_image_handler rt ev))
           = Some (JObj [(''success'', JBool True), (''prompt'', JStr p),
                         (''originalImage'', JObj [(''mimeType'', JStr m)]),
                         (''results'', JArr (map result_json rs))])"
  using assms
  by (auto simp: manipulate_image_handler_def manipulate_image_try_def manipulate_form_def
                 json_response_def successBody_def Let_def
           split: sum.splits option.splits if_splits prod.splits dest: catchError_not_200)

lemma api_manipulate_image_200:
  assumes "res_status (fst (api_manipulate_image rt req)) = 200"
  shows "\<exists>p n s m rs. rs \<noteq> [] \<and> res_json (fst (api_manipulate_image rt req))
           = JObj [(''success'', JBool True), (''prompt'', JStr p),
                   (''originalImage'', JObj [(''name'', JStr n), (''size'', JNum s), (''mimeType'', JStr m)]),
                   (''results'', JArr (map server_result_json rs))]"
  using assms
  by (auto simp: api_manipulate_image_def api_manipulate_image_try_def successBody_def Let_def
           split: sum.splits option.splits if_splits prod.splits dest: catchError_not_200)

lemma result_json_shape:
  "json_get (result_json (Image d m f)) ''type'' = Some (JStr ''image'')"
  "json_get (result_json (Image d m f)) ''filename'' = Some (JStr f)"
  "json_get (result_json (Image d m f)) ''data'' = map_option JStr d"
  "json_get (result_json (Image d m f)) ''mimeType'' = map_option JStr m"
  "json_get (result_json (Text c)) ''type'' = Some (JStr ''text'')"
  "json_get (result_json (Text c)) ''content'' = Some (JStr c)"
  by (simp_all add: field_def split: option.splits)

lemma server_result_json_shape:
  "json_get (server_result_json (ServerImage u m)) ''type'' = Some (JStr ''image'')"
  "json_get (server_result_json (ServerImage u m)) ''url'' = Some (JStr u)"
  "json_get (server_result_json (ServerImage u m)) ''mimeType'' = map_option JStr m"
  "json_get (server_result_json (ServerImage u m)) ''filename'' = None"
  "json_get (server_result_json (ServerImage u m)) ''data'' = None"
  "json_get (server_result_json (ServerText c)) ''type'' = Some (JStr ''text'')"
  "json_get (server_result_json (ServerText c)) ''content'' = Some (JStr c)"
  by (simp_all add: field_def split: option.splits)

text \<open>
  C8 (as amended). Every success body is an object with \<open>success: true\<close>, the
  \<open>prompt\<close> and a non-empty \<open>results\<close> array, and for image manipulation also
  \<open>originalImage\<close>. An image result of the stateless functions carries the type
  \<open>image\<close> and a \<open>filename\<close>, and \<open>data\<close> and \<open>mimeType\<close> exactly when the inline data
  of the model has them; an image result of the server carries the type \<open>image\<close> and
  a \<open>url\<close>, \<open>mimeType\<close> exactly when the model declares one, and neither \<open>filename\<close>
  nor \<open>data\<close>. A text result carries the type \<open>text\<close> and the \<open>content\<close>.
\<close>

theorem C8_success_body:
  "(statusCode (fst (generate_image_handler rt ev)) = 200 \<and> httpMethod ev \<noteq> ''OPTIONS''
     \<longrightarrow> (\<exists>p rs. rs \<noteq> [] \<and> body (fst (generate_image_handler rt ev))
           = Some (JObj [(''success'', JBool True), (''prompt'', p),
                         (''results'', JArr (map result_json rs))])))
   \<and> (res_status (fst (api_generate_image rt req_body)) = 200
     \<longrightarrow> (\<exists>p rs. rs \<noteq> [] \<and> res_json (fst (api_generate_image rt req_body))
           = JObj [(''success'', JBool True), (''prompt'', p),
                   (''results'', JArr (map server_result_json rs))]))
   \<and> (statusCode (fst (manipulate_image_handler rt ev')) = 200 \<and> httpMethod ev' \<noteq> ''OPTIONS''
     \<longrightarrow> (\<exists>p m rs. rs \<noteq> [] \<and> body (fst (manipulate_image_handler rt ev'))
           = Some (JObj [(''success'', JBool True), (''prompt'', JStr p),
                         (''originalImage'', JObj [(''mimeType'', JStr m)]),
                         (''results'', JArr (map result_json rs))])))
   \<and> (res_status (fst (api_manipulate_image rt req)) = 200
     \<longrightarrow> (\<exists>p n s m rs. rs \<noteq> [] \<and> res_json (fst (api_manipulate_image rt req))
           = JObj [(''success'', JBool True), (''prompt'', JStr p),
                   (''originalImage'',
                    JObj [(''name'', JStr n), (''size'', JNum s), (''mimeType'', JStr m)]),
                   (''results'', JArr (map server_result_json rs))]))
   \<and> json_get (result_json (Image d mt f)) ''type'' = Some (JStr ''image'')
   \<and> json_get (result_json (Image d mt f)) ''filename'' = Some (JStr f)
   \<and> json_get (result_json (Image d mt f)) ''data'' = map_option JStr d
   \<and> json_get (result_json (Image d mt f)) ''mimeType'' = map_option JStr mt
   \<and> json_get (result_json (Text c)) ''type'' = Some (JStr ''text'')
   \<and> json_get (result_json (Text c)) ''content'' = Some (JStr c)
   \<and> json_get (server_result_json (ServerImage u mt)) ''type'' = Some (JStr ''image'')
   \<and> json_get (server_result_json (ServerImage u mt)) ''url'' = Some (JStr u)
   \<and> json_get (server_result_json (ServerImage u mt)) ''mimeType'' = map_option JStr mt
   \<and> json_get (server_result_json (ServerImage u mt)) ''filename'' = None
   \<and> json_get (server_result_json (ServerImage u mt)) ''data'' = None
   \<and> json_get (server_result_json (ServerText c)) ''type'' = Some (JStr ''text'')
   \<and> json_get (server_result_json (ServerText c)) ''content'' = Some (JStr c)"
  using generate_image_handler_200 [of rt ev] api_generate_image_200 [of rt req_body]
    manipulate_image_handler_200 [of rt ev'] api_manipulate_image_200 [of rt req]
  by (simp only: result_json_shape server_result_json_shape) blast

text \<open>
  C8 as stated fails: on the server the image result of the end-to-end scenario has
  no \<open>filename\<close> field, and in the stateless deployment an image whose inline data
  declares no media type has no \<open>mimeType\<close> field.
\<close>

theorem C8_counterexample:
  "res_json (fst (api_generate_image (sample_runtime (Some ''key'') (\<lambda>r. Inr sample_stream))
       (Some (JObj [(''prompt'', JStr ''a red circle'')]))))
     = JObj [(''success'', JBool True), (''prompt'', JStr ''a red circle''),
             (''results'',
              JArr [JObj [(''type'', JStr ''image''),
                          (''url'', JStr ''/generated/text_to_image_1700000000000_0.png''),
                          (''mimeType'', JStr ''image/png'')],
                    JObj [(''type'', JStr ''text''), (''content'', JStr ''done'')]])]
   \<and> body (fst (generate_image_handler
         (sample_runtime (Some ''key'') (\<lambda>r. Inr ([imageChunk (Some ''AAAA'') None], None)))
         (sample_event sample_body)))
     = Some (JObj [(''success'', JBool True), (''prompt'', JStr ''a red circle''),
                   (''results'',
                    JArr [JObj [(''type'', JStr ''image''), (''data'', JStr ''AAAA''),
                                (''filename'', JStr ''text_to_image_1700000000000_0.png'')]])])"
proof
  show "res_json (fst (api_generate_image (sample_runtime (Some ''key'') (\<lambda>r. Inr sample_stream))
       (Some (JObj [(''prompt'', JStr ''a red circle'')]))))
     = JObj [(''success'', JBool True), (''prompt'', JStr ''a red circle''),
             (''results'',
              JArr [JObj [(''type'', JStr ''image''),
                          (''url'', JStr ''/generated/text_to_image_1700000000000_0.png''),
                          (''mimeType'', JStr ''image/png'')],
                    JObj [(''type'', JStr ''text''), (''content'', JStr ''done'')]])]"
    by (simp add: api_generate_image_def api_generate_image_try_def sample_runtime_def
          truthy_str_def sample_stream_server_results successBody_def field_def)
  have "processAIResponse sample_getExtension sample_now ([imageChunk (Some ''AAAA'') None], None)
          ''text_to_image''
        = Inr [Image (Some ''AAAA'') None ''text_to_image_1700000000000_0.png'']"
    by (simp add: processAIResponse_def imageChunk_def skipGuard_def firstInlineData_def
          fileName_def fileExtension_def or_else_def sample_getExtension_def show_nat_0
          show_sample_now)
  then show "body (fst (generate_image_handler
         (sample_runtime (Some ''key'') (\<lambda>r. Inr ([imageChunk (Some ''AAAA'') None], None)))
         (sample_event sample_body)))
     = Some (JObj [(''success'', JBool True), (''prompt'', JStr ''a red circle''),
                   (''results'',
                    JArr [JObj [(''type'', JStr ''image''), (''data'', JStr ''AAAA''),
                                (''filename'', JStr ''text_to_image_1700000000000_0.png'')]])])"
    by (simp add: generate_image_handler_def generate_image_try_def sample_runtime_def
          sample_event_def sample_JSON_parse_def truthy_str_def successBody_def field_def
          json_response_def)
qed

lemma sample_generate_status:
  "statusCode (fst (generate_image_handler (sample_runtime (Some ''key'') (\<lambda>r. Inr sample_stream))
      (sample_event sample_body))) = 200"
  "httpMethod (sample_event sample_body) \<noteq> ''OPTIONS''"
  by (simp_all add: generate_image_handler_def generate_image_try_def sample_runtime_def
        sample_event_def sample_JSON_parse_def truthy_str_def sample_stream_results json_response_def)

lemma sample_api_generate_status:
  "res_status (fst (api_generate_image (sample_runtime (Some ''key'') (\<lambda>r. Inr sample_stream))
      (Some (JObj [(''prompt'', JStr ''a red circle'')])))) = 200"
  by (simp add: api_generate_image_def api_generate_image_try_def sample_runtime_def
        truthy_str_def sample_stream_server_results)

lemma sample_manipulate_status:
  "statusCode (fst (manipulate_image_handler (sample_runtime (Some ''key'') (\<lambda>r. Inr sample_stream))
      (sample_form_event sample_form_with_image))) = 200"
  "httpMethod (sample_form_event sample_form_with_image) \<noteq> ''OPTIONS''"
proof -
  have "manipulateParsed (sample_runtime (Some ''key'') (\<lambda>r. Inr sample_stream))
          (sample_form_event sample_form_with_image) ''multipart/form-data; boundary=XYZ'' ''XYZ''
          sample_form_with_image
          \<lparr>fd_fields = [(''prompt'', ''make it blue'')],
            fd_image = Some \<lparr>img_data = ''PNGDATA'', img_mimeType = ''image/png''\<rparr>\<rparr>"
    using sample_form_parsed [of "Some ''key''" "\<lambda>r. Inr sample_stream" sample_form_with_image]
    by (simp only: sample_prompt_and_image)
  from manipulate_image_handler_parsed [OF this]
  show "statusCode (fst (manipulate_image_handler (sample_runtime (Some ''key'') (\<lambda>r. Inr sample_stream))
      (sample_form_event sample_form_with_image))) = 200"
    by (simp add: manipulate_form_def truthy_str_def sample_runtime_def sample_stream_results
          json_response_def)
  show "httpMethod (sample_form_event sample_form_with_image) \<noteq> ''OPTIONS''"
    by (simp add: sample_form_event_def)
qed

lemma sample_api_manipulate_status:
  "res_status (fst (api_manipulate_image (sample_runtime (Some ''key'') (\<lambda>r. Inr sample_stream))
      \<lparr>mreq_body = Some [(''prompt'', ''make it blue'')], mreq_file = Some sample_upload\<rparr>)) = 200"
  by (simp add: api_manipulate_image_def api_manipulate_image_try_def sample_runtime_def
        truthy_str_def sample_stream_server_results)

text \<open>C8 (as amended) on the four handlers answering the end-to-end scenario.\<close>

theorem C8_success_body_witness:
  "statusCode (fst (generate_image_handler (sample_runtime (Some ''key'') (\<lambda>r. Inr sample_stream))
      (sample_event sample_body))) = 200
   \<and> res_status (fst (api_generate_image (sample_runtime (Some ''key'') (\<lambda>r. Inr sample_stream))
      (Some (JObj [(''prompt'', JStr ''a red circle'')])))) = 200
   \<and> statusCode (fst (manipulate_image_handler (sample_runtime (Some ''key'') (\<lambda>r. Inr sample_stream))
      (sample_form_event sample_form_with_image))) = 200
   \<and> res_status (fst (api_manipulate_image (sample_runtime (Some ''key'') (\<lambda>r. Inr sample_stream))
      \<lparr>mreq_body = Some [(''prompt'', ''make it blue'')], mreq_file = Some sample_upload\<rparr>)) = 200
   \<and> (\<exists>p rs. rs \<noteq> [] \<and> body (fst (generate_image_handler
          (sample_runtime (Some ''key'') (\<lambda>r. Inr sample_stream)) (sample_event sample_body)))
        = Some (JObj [(''success'', JBool True), (''prompt'', p),
                      (''results'', JArr (map result_json rs))]))
   \<and> (\<exists>p rs. rs \<noteq> [] \<and> res_json (fst (api_generate_image
          (sample_runtime (Some ''key'') (\<lambda>r. Inr sample_stream))
          (Some (JObj [(''prompt'', JStr ''a red circle'')]))))
        = JObj [(''success'', JBool True), (''prompt'', p),
                (''results'', JArr (map server_result_json rs))])
   \<and> (\<exists>p m rs. rs \<noteq> [] \<and> body (fst (manipulate_image_handler
          (sample_runtime (Some ''key'') (\<lambda>r. Inr sample_stream))
          (sample_form_event sample_form_with_image)))
        = Some (JObj [(''success'', JBool True), (''prompt'', JStr p),
                      (''originalImage'', JObj [(''mimeType'', JStr m)]),
                      (''results'', JArr (map result_json rs))]))
   \<and> (\<exists>p n s m rs. rs \<noteq> [] \<and> res_json (fst (api_manipulate_image
          (sample_runtime (Some ''key'') (\<lambda>r. Inr sample_stream))
          \<lparr>mreq_body = Some [(''prompt'', ''make it blue'')], mreq_file = Some sample_upload\<rparr>))
        = JObj [(''success'', JBool True), (''prompt'', JStr p),
                (''originalImage'',
                 JObj [(''name'', JStr n), (''size'', JNum s), (''mimeType'', JStr m)]),
                (''results'', JArr (map server_result_json rs))])"
  using C8_success_body [where rt = "sample_runtime (Some ''key'') (\<lambda>r. Inr sample_stream)"
      and ev = "sample_event sample_body"
      and req_body = "Some (JObj [(''prompt'', JStr ''a red circle'')])"
      and ev' = "sample_form_event sample_form_with_image"
      and req = "\<lparr>mreq_body = Some [(''prompt'', ''make it blue'')], mreq_file = Some sample_upload\<rparr>"]
    sample_generate_status sample_api_generate_status sample_manipulate_status
    sample_api_manipulate_status
  by blast

end
